theory Spec2Isabelle
  imports Complex_Main "HOL-Library.Sublist"
begin

section \<open>Values thrown by the TypeScript code\<close>

text \<open>
  A JavaScript \<^verbatim>\<open>throw\<close> can raise any value.  The functions below only inspect
  whether the value is an object, whether it is an instance of \<^verbatim>\<open>Error\<close>, and its
  optional \<^verbatim>\<open>message\<close>, \<^verbatim>\<open>code\<close> and \<^verbatim>\<open>response.status\<close> fields.  An
  \<^verbatim>\<open>Error\<close> instance always has a string \<^verbatim>\<open>message\<close>; any other object may lack it.
  The arguments of the two object constructors are the message, the code and the
  response status, in this order.
\<close>

datatype thrown =
    ErrorInstance string "string option" "nat option"
  | PlainObject "string option" "string option" "nat option"
  | Primitive string
  | ThrownNull
  | ThrownUndefined

fun isObject :: "thrown \<Rightarrow> bool" where
  "isObject (ErrorInstance _ _ _) = True"
| "isObject (PlainObject _ _ _) = True"
| "isObject _ = False"

fun messageOf :: "thrown \<Rightarrow> string option" where
  "messageOf (ErrorInstance m _ _) = Some m"
| "messageOf (PlainObject m _ _) = m"
| "messageOf _ = None"

fun codeOf :: "thrown \<Rightarrow> string option" where
  "codeOf (ErrorInstance _ c _) = c"
| "codeOf (PlainObject _ c _) = c"
| "codeOf _ = None"

fun statusOf :: "thrown \<Rightarrow> nat option" where
  "statusOf (ErrorInstance _ _ st) = st"
| "statusOf (PlainObject _ _ st) = st"
| "statusOf _ = None"

section \<open>Strings\<close>

text \<open>
  Strings are lists of 8-bit characters.  \<^verbatim>\<open>toLowerCase\<close> is modelled on ASCII text: the
  letters A to Z are mapped to a to z and every other character is kept.
  \<^verbatim>\<open>String.prototype.includes\<close> tests for a contiguous occurrence.
\<close>

definition toLowerCaseChar :: "char \<Rightarrow> char" where
  "toLowerCaseChar c =
     (case map_of (zip ''ABCDEFGHIJKLMNOPQRSTUVWXYZ'' ''abcdefghijklmnopqrstuvwxyz'') c of
        Some l \<Rightarrow> l
      | None \<Rightarrow> c)"

definition toLowerCase :: "string \<Rightarrow> string" where
  "toLowerCase s = map toLowerCaseChar s"

fun str_includes :: "string \<Rightarrow> string \<Rightarrow> bool" where
  "str_includes [] needle = (needle = [])"
| "str_includes (c # cs) needle = (prefix needle (c # cs) \<or> str_includes cs needle)"

text \<open>The decimal digits of a natural number, as \<^verbatim>\<open>String(n)\<close> prints them.\<close>

definition decimalDigit :: "nat \<Rightarrow> char" where
  "decimalDigit d = ''0123456789'' ! (d mod 10)"

function decimal :: "nat \<Rightarrow> string" where
  "decimal n = (if n < 10 then [decimalDigit n] else decimal (n div 10) @ [decimalDigit n])"
  by pat_completeness auto
termination
  by (relation "measure id") auto

declare decimal.simps [simp del]

section \<open>WalletManager (services/wallet/index.ts)\<close>

text \<open>
  The manager keeps \<^verbatim>\<open>currentNonce: number | null\<close>.  Its debug logger is the only
  observable record of the nonce handed to a callback, so the log is part of the state.
  The provider and everything a callback can change (the chain, the mempool) are an
  abstract world \<open>'w\<close>; \<^verbatim>\<open>provider.getTransactionCount(address, 'pending')\<close> reads it and
  may reject.
\<close>

datatype wallet_log = NonceSynced nat | ExecutingTransaction nat

record wallet_manager =
  currentNonce :: "nat option"
  walletLog :: "wallet_log list"

type_synonym 'w provider = "'w \<Rightarrow> thrown + nat"

type_synonym ('w, 'a) tx_callback = "nat \<Rightarrow> 'w \<Rightarrow> (thrown + 'a) \<times> 'w"

definition newWalletManager :: wallet_manager where
  "newWalletManager = \<lparr>currentNonce = None, walletLog = []\<rparr>"

definition syncNonce :: "'w provider \<Rightarrow> 'w \<Rightarrow> wallet_manager \<Rightarrow> thrown + wallet_manager" where
  "syncNonce getTransactionCount w m =
     (case getTransactionCount w of
        Inl e \<Rightarrow> Inl e
      | Inr n \<Rightarrow> Inr (m\<lparr>currentNonce := Some n, walletLog := walletLog m @ [NonceSynced n]\<rparr>))"

text \<open>
  The body that \<^verbatim>\<open>executeTransaction\<close> passes to \<^verbatim>\<open>mutex.runExclusive\<close>.  The branch
  for a nonce that is still null after \<^verbatim>\<open>syncNonce\<close> returned normally cannot be taken
  (lemma \<open>syncNonce_sets_nonce\<close>); the source writes \<^verbatim>\<open>this.currentNonce!\<close> there.
\<close>

definition executeTransaction ::
  "'w provider \<Rightarrow> ('w, 'a) tx_callback \<Rightarrow> wallet_manager \<times> 'w \<Rightarrow> (thrown + 'a) \<times> wallet_manager \<times> 'w" where
  "executeTransaction getTransactionCount fn mw =
     (case mw of (m, w) \<Rightarrow>
        (case (if currentNonce m = None then syncNonce getTransactionCount w m else Inr m) of
           Inl e \<Rightarrow> (Inl e, m, w)
         | Inr m1 \<Rightarrow>
             (case currentNonce m1 of
                None \<Rightarrow> (Inl ThrownUndefined, m1, w)
              | Some nonce \<Rightarrow>
                  (let m2 = m1\<lparr>walletLog := walletLog m1 @ [ExecutingTransaction nonce]\<rparr> in
                   case fn nonce w of
                     (Inr result, w') \<Rightarrow> (Inr result, m2\<lparr>currentNonce := Some (nonce + 1)\<rparr>, w')
                   | (Inl error, w') \<Rightarrow> (Inl error, m2\<lparr>currentNonce := None\<rparr>, w')))))"




section \<open>Retry utility (utils/retry.ts)\<close>

text \<open>
  Delays are JavaScript numbers holding milliseconds; they are modelled as exact
  rationals.  \<^verbatim>\<open>retryableErrors\<close> is an optional field.
\<close>

record retry_options =
  maxAttempts :: int
  initialDelayMs :: rat
  maxDelayMs :: rat
  backoffMultiplier :: rat
  retryableErrors :: "(thrown \<Rightarrow> bool) option"

definition isRetryableApiError :: "thrown \<Rightarrow> bool" where
  "isRetryableApiError error =
     (if isObject error then
        (if codeOf error = Some ''ECONNRESET'' \<or> codeOf error = Some ''ETIMEDOUT''
            \<or> codeOf error = Some ''ENOTFOUND'' then True
         else
           (case statusOf error of
              Some status \<Rightarrow>
                (if status \<noteq> 0 then status = 429 \<or> status \<ge> 500
                 else (case messageOf error of
                         Some m \<Rightarrow> str_includes (toLowerCase m) ''timeout''
                       | None \<Rightarrow> False))
            | None \<Rightarrow>
                (case messageOf error of
                   Some m \<Rightarrow> str_includes (toLowerCase m) ''timeout''
                 | None \<Rightarrow> False)))
      else False)"

definition isRetryableTxError :: "thrown \<Rightarrow> bool" where
  "isRetryableTxError error =
     (if isObject error then
        (if (case messageOf error of Some m \<Rightarrow> str_includes (toLowerCase m) ''nonce'' | None \<Rightarrow> False)
         then True
         else if (case messageOf error of
                    Some m \<Rightarrow> str_includes (toLowerCase m) ''replacement fee'' | None \<Rightarrow> False)
         then True
         else if codeOf error = Some ''NETWORK_ERROR'' \<or> codeOf error = Some ''TIMEOUT''
         then True
         else False)
      else False)"

definition API_RETRY_DEFAULTS :: retry_options where
  "API_RETRY_DEFAULTS =
     \<lparr>maxAttempts = 3, initialDelayMs = 1000, maxDelayMs = 10000, backoffMultiplier = 2,
      retryableErrors = Some isRetryableApiError\<rparr>"

definition TX_RETRY_DEFAULTS :: retry_options where
  "TX_RETRY_DEFAULTS =
     \<lparr>maxAttempts = 2, initialDelayMs = 2000, maxDelayMs = 5000, backoffMultiplier = 3 / 2,
      retryableErrors = Some isRetryableTxError\<rparr>"

text \<open>
  The operation \<^verbatim>\<open>fn\<close> acts on a world \<open>'s\<close> and either returns or throws.  The
  observable effects of \<^verbatim>\<open>withRetry\<close> are its calls of \<^verbatim>\<open>fn\<close> and of
  \<^verbatim>\<open>delay(ms)\<close>; they are recorded in order.  The loop variable \<^verbatim>\<open>attempt\<close>,
  \<^verbatim>\<open>currentDelay\<close> and \<^verbatim>\<open>lastError\<close> are the arguments of the recursion.  When the loop
  is never entered the source throws \<^verbatim>\<open>lastError\<close>, which is still undefined.
\<close>

datatype retry_event = Invoked | Delayed rat

function withRetry_loop ::
  "retry_options \<Rightarrow> ('s \<Rightarrow> (thrown + 'a) \<times> 's) \<Rightarrow> int \<Rightarrow> rat \<Rightarrow> thrown \<Rightarrow> 's
     \<Rightarrow> retry_event list \<Rightarrow> (thrown + 'a) \<times> 's \<times> retry_event list" where
  "withRetry_loop options fn attempt currentDelay lastError s tr =
     (if attempt \<le> maxAttempts options then
        (case fn s of
           (Inr v, s') \<Rightarrow> (Inr v, s', tr @ [Invoked])
         | (Inl error, s') \<Rightarrow>
             (let isRetryable = (case retryableErrors options of Some f \<Rightarrow> f error | None \<Rightarrow> True);
                  hasMoreAttempts = (attempt < maxAttempts options)
              in if \<not> isRetryable \<or> \<not> hasMoreAttempts then (Inl error, s', tr @ [Invoked])
                 else withRetry_loop options fn (attempt + 1)
                        (min (currentDelay * backoffMultiplier options) (maxDelayMs options))
                        error s' (tr @ [Invoked, Delayed currentDelay])))
      else (Inl lastError, s, tr))"
  by pat_completeness auto
termination
  by (relation "measure (\<lambda>(options, fn, attempt, currentDelay, lastError, s, tr).
                  nat (maxAttempts options + 1 - attempt))") auto

definition withRetry ::
  "retry_options \<Rightarrow> ('s \<Rightarrow> (thrown + 'a) \<times> 's) \<Rightarrow> 's \<Rightarrow> (thrown + 'a) \<times> 's \<times> retry_event list" where
  "withRetry options fn s = withRetry_loop options fn 1 (initialDelayMs options) ThrownUndefined s []"

section \<open>The processed-id caches (loops/bidding.ts, loops/liquidation.ts)\<close>

text \<open>
  \<^verbatim>\<open>processedRequests\<close> and \<^verbatim>\<open>processedLiquidations\<close> are \<^verbatim>\<open>Map<string, number>\<close>
  objects from an id to the \<^verbatim>\<open>Date.now()\<close> of its marking.  A JavaScript Map iterates in
  insertion order and holds each key once, so it is an association list whose keys are
  distinct: \<^verbatim>\<open>set\<close> overwrites the value of a present key in place and appends a new
  key, \<^verbatim>\<open>delete\<close> removes the key's entry.
\<close>

type_synonym processed_map = "(string \<times> int) list"

definition map_has :: "processed_map \<Rightarrow> string \<Rightarrow> bool" where
  "map_has m k = (k \<in> set (map fst m))"

fun map_set :: "processed_map \<Rightarrow> string \<Rightarrow> int \<Rightarrow> processed_map" where
  "map_set [] k v = [(k, v)]"
| "map_set ((k', v') # m) k v = (if k' = k then (k, v) # m else (k', v') # map_set m k v)"

definition map_delete :: "processed_map \<Rightarrow> string \<Rightarrow> processed_map" where
  "map_delete m k = filter (\<lambda>e. fst e \<noteq> k) m"

definition CLEANUP_INTERVAL_MS :: int where
  "CLEANUP_INTERVAL_MS = 60 * 60 * 1000"

definition MAX_PROCESSED_ENTRIES :: nat where
  "MAX_PROCESSED_ENTRIES = 1000"

text \<open>
  \<^verbatim>\<open>cleanupProcessedRequests\<close> and \<^verbatim>\<open>cleanupProcessedLiquidations\<close> have the same body,
  each over its own map and its own copy of the two constants.  The body is written once,
  with the constants as parameters.  The first loop iterates over the map while deleting
  the entry it is visiting, which visits every original entry once.  \<^verbatim>\<open>Array.sort\<close> is
  stable, as is \<open>sort_key\<close>; \<^verbatim>\<open>slice(0, length - max)\<close> is \<open>take (length - max)\<close>.
  The counter \<^verbatim>\<open>removed\<close> only feeds a debug log line and is left out.
\<close>

definition sweepProcessed :: "int \<Rightarrow> nat \<Rightarrow> int \<Rightarrow> processed_map \<Rightarrow> processed_map" where
  "sweepProcessed interval maxEntries now processed =
     (let oneHourAgo = now - interval;
          swept = fold (\<lambda>(id, timestamp) m. if timestamp < oneHourAgo then map_delete m id else m)
                    processed processed
      in if length swept > maxEntries then
           (let entries = sort_key snd swept;
                toRemove = take (length entries - maxEntries) entries
            in fold (\<lambda>(id, timestamp) m. map_delete m id) toRemove swept)
         else swept)"

definition cleanupProcessedRequests :: "int \<Rightarrow> processed_map \<Rightarrow> processed_map" where
  "cleanupProcessedRequests now processedRequests =
     sweepProcessed CLEANUP_INTERVAL_MS MAX_PROCESSED_ENTRIES now processedRequests"

definition cleanupProcessedLiquidations :: "int \<Rightarrow> processed_map \<Rightarrow> processed_map" where
  "cleanupProcessedLiquidations now processedLiquidations =
     sweepProcessed CLEANUP_INTERVAL_MS MAX_PROCESSED_ENTRIES now processedLiquidations"

section \<open>The transform call (services/api/rfq.ts)\<close>

text \<open>
  \<^verbatim>\<open>client.post('/octarine/transform', {requestId})\<close> acts on the remote service, a world
  \<open>'w\<close>, and resolves to a response with an optional \<^verbatim>\<open>txHash\<close> or rejects.  The check
  \<^verbatim>\<open>error instanceof Error && error.message.includes('Already executed')\<close> is case
  sensitive and only looks at \<^verbatim>\<open>Error\<close> instances.
\<close>

record transform_response =
  txHash :: "string option"

fun alreadyExecuted :: "thrown \<Rightarrow> bool" where
  "alreadyExecuted (ErrorInstance m _ _) = str_includes m ''Already executed''"
| "alreadyExecuted _ = False"

definition callTransform ::
  "(string \<Rightarrow> 'w \<Rightarrow> (thrown + transform_response) \<times> 'w) \<Rightarrow> string \<Rightarrow> 'w
     \<Rightarrow> (thrown + transform_response) \<times> 'w" where
  "callTransform post requestId w =
     (case post requestId w of
        (Inr response, w') \<Rightarrow> (Inr response, w')
      | (Inl error, w') \<Rightarrow>
          (if alreadyExecuted error then (Inr \<lparr>txHash = None\<rparr>, w') else (Inl error, w')))"

text \<open>
  The client that \<^verbatim>\<open>callTransform\<close> obtains from \<^verbatim>\<open>getApiClient()\<close> is the repository's
  \<^verbatim>\<open>ApiClient\<close> (services/api/client.ts).  Its \<^verbatim>\<open>post\<close> runs the axios request under
  \<^verbatim>\<open>withRetry\<close> with \<^verbatim>\<open>API_RETRY_DEFAULTS\<close> and returns \<^verbatim>\<open>response.data\<close>.  The service
  answers a request with a success body, with an error status and a message in the
  body, or not at all.  axios rejects an error status with an \<^verbatim>\<open>AxiosError\<close> whose
  \<^verbatim>\<open>message\<close> is \<^verbatim>\<open>Request failed with status code N\<close>; the text sent by the service is
  under \<^verbatim>\<open>response.data\<close>, which neither the interceptors nor \<^verbatim>\<open>callTransform\<close> read.  The
  response interceptor logs the error and rejects with it unchanged.
\<close>

datatype http_reply =
    HttpOk transform_response
  | HttpFailure nat string
  | NetworkFailure string string

definition axiosError :: "nat \<Rightarrow> thrown" where
  "axiosError status =
     ErrorInstance (''Request failed with status code '' @ decimal status)
       (Some (if status < 500 then ''ERR_BAD_REQUEST'' else ''ERR_BAD_RESPONSE''))
       (Some status)"

definition axiosPost ::
  "(string \<Rightarrow> 'w \<Rightarrow> http_reply \<times> 'w) \<Rightarrow> string \<Rightarrow> 'w \<Rightarrow> (thrown + transform_response) \<times> 'w" where
  "axiosPost service rid w =
     (case service rid w of
        (HttpOk response, w') \<Rightarrow> (Inr response, w')
      | (HttpFailure status body, w') \<Rightarrow> (Inl (axiosError status), w')
      | (NetworkFailure m c, w') \<Rightarrow> (Inl (ErrorInstance m (Some c) None), w'))"

definition apiClientPost ::
  "(string \<Rightarrow> 'w \<Rightarrow> http_reply \<times> 'w) \<Rightarrow> string \<Rightarrow> 'w \<Rightarrow> (thrown + transform_response) \<times> 'w" where
  "apiClientPost service rid w =
     (case withRetry API_RETRY_DEFAULTS (axiosPost service rid) w of
        (result, w', waits) \<Rightarrow> (result, w'))"

section \<open>The stream client (services/api/websocket.ts)\<close>

text \<open>
  A parsed JSON document.  An object keeps its members in source order; on a repeated
  key \<^verbatim>\<open>JSON.parse\<close> keeps the last member.  Reading a property of \<^verbatim>\<open>null\<close> or of
  \<^verbatim>\<open>undefined\<close> throws a \<^verbatim>\<open>TypeError\<close>; reading one of the properties used here
  (\<^verbatim>\<open>type\<close>, \<^verbatim>\<open>data\<close>, \<^verbatim>\<open>chainId\<close>) of a boolean, number, string or array gives
  \<^verbatim>\<open>undefined\<close>, which is \<open>None\<close>.
\<close>

datatype json =
    JNull
  | JBool bool
  | JNumber rat
  | JString string
  | JArray "json list"
  | JObject "(string \<times> json) list"

definition typeError :: thrown where
  "typeError = ErrorInstance ''Cannot read properties of undefined'' None None"

fun getProp :: "json \<Rightarrow> string \<Rightarrow> thrown + json option" where
  "getProp JNull k = Inl typeError"
| "getProp (JObject members) k = Inr (map_of (rev members) k)"
| "getProp _ k = Inr None"

fun getPropOf :: "json option \<Rightarrow> string \<Rightarrow> thrown + json option" where
  "getPropOf None k = Inl typeError"
| "getPropOf (Some v) k = getProp v k"

text \<open>\<^verbatim>\<open>supportedChains.includes(x)\<close> for an array of numbers and any value \<open>x\<close>.\<close>

fun chainsInclude :: "int list \<Rightarrow> json option \<Rightarrow> bool" where
  "chainsInclude supported (Some (JNumber n)) = (n \<in> set (map of_int supported))"
| "chainsInclude supported _ = False"

record ws_config =
  url :: string
  reconnectIntervalMs :: rat
  wsSupportedChains :: "int list"
  wsMarketMakerAddress :: string

datatype ws_event =
    RfqRequestEvent "json option"
  | LiquidationEvent "json option"
  | BidAcceptedEvent "json option"
  | ConnectedEvent
  | DisconnectedEvent string
  | ErrorEvent thrown

text \<open>
  What the client does to its surroundings, in order: events handed to the listeners of
  \<^verbatim>\<open>'event'\<close>, sockets created and closed, the subscription sent, timers armed and
  cleared, the settling of the promise of \<^verbatim>\<open>connect\<close>, log lines, and an exception that
  leaves a handler uncaught.
\<close>

datatype ws_effect =
    Emitted ws_event
  | SocketCreated nat
  | SocketCloseCalled nat
  | SubscribeSent nat
  | TimerArmed nat rat
  | TimerCleared nat
  | Resolved
  | Rejected thrown
  | Logged string
  | Uncaught thrown

datatype ready_state = CONNECTING | OPEN | CLOSING | CLOSED

text \<open>
  The four private fields of \<^verbatim>\<open>OctarineWebSocket\<close> together with the part of the runtime
  they refer to: the sockets created so far (a socket is named by its index) with their
  \<^verbatim>\<open>readyState\<close>, and the timers that are armed and have neither fired nor been cleared.
\<close>

record ws_world =
  ws :: "nat option"
  isConnected :: bool
  shouldReconnect :: bool
  reconnectTimeout :: "nat option"
  sockets :: "ready_state list"
  timers :: "(nat \<times> rat) list"
  nextTimer :: nat
  effects :: "ws_effect list"


definition effect :: "ws_effect \<Rightarrow> ws_world \<Rightarrow> ws_world" where
  "effect e w = w\<lparr>effects := effects w @ [e]\<rparr>"

text \<open>
  \<^verbatim>\<open>this.emit('event', e)\<close> calls the listeners synchronously.  The listeners are outside
  the class: \<open>listener e\<close> is \<open>None\<close> when they all return and \<open>Some x\<close> when one throws
  \<open>x\<close>, which then leaves \<^verbatim>\<open>emit\<close>.
\<close>

definition emit :: "(ws_event \<Rightarrow> thrown option) \<Rightarrow> ws_event \<Rightarrow> ws_world \<Rightarrow> thrown option \<times> ws_world" where
  "emit listener e w = (listener e, effect (Emitted e) w)"





text \<open>
  The body of the \<^verbatim>\<open>try\<close> block of \<^verbatim>\<open>handleMessage\<close>: the world it reaches and the value
  it throws, if any.  \<open>parse\<close> is \<^verbatim>\<open>JSON.parse\<close> applied to \<^verbatim>\<open>data.toString()\<close>, with
  \<open>None\<close> for a \<^verbatim>\<open>SyntaxError\<close>.
\<close>

definition syntaxError :: thrown where
  "syntaxError = ErrorInstance ''Unexpected token in JSON'' None None"

definition emitIfSupported ::
  "(ws_event \<Rightarrow> thrown option) \<Rightarrow> ws_config \<Rightarrow> (json option \<Rightarrow> ws_event) \<Rightarrow> json \<Rightarrow> ws_world
     \<Rightarrow> thrown option \<times> ws_world" where
  "emitIfSupported listener config mk message w =
     (case getProp message ''data'' of
        Inl e \<Rightarrow> (Some e, w)
      | Inr dat \<Rightarrow>
          (case getPropOf dat ''chainId'' of
             Inl e \<Rightarrow> (Some e, w)
           | Inr chainId \<Rightarrow>
               (if chainsInclude (wsSupportedChains config) chainId
                then emit listener (mk dat) w
                else (None, w))))"

definition handleMessageTry ::
  "(string \<Rightarrow> json option) \<Rightarrow> (ws_event \<Rightarrow> thrown option) \<Rightarrow> ws_config \<Rightarrow> string \<Rightarrow> ws_world
     \<Rightarrow> thrown option \<times> ws_world" where
  "handleMessageTry parse listener config dat w =
     (case parse dat of
        None \<Rightarrow> (Some syntaxError, w)
      | Some message \<Rightarrow>
          (case getProp message ''type'' of
             Inl e \<Rightarrow> (Some e, w)
           | Inr ty \<Rightarrow>
               (let w1 = effect (Logged ''WebSocket message received'') w in
                if ty = Some (JString ''rfq_request'') then
                  emitIfSupported listener config RfqRequestEvent message w1
                else if ty = Some (JString ''liquidation'') then
                  emitIfSupported listener config LiquidationEvent message w1
                else if ty = Some (JString ''bid_accepted'') then
                  (case getProp message ''data'' of
                     Inl e \<Rightarrow> (Some e, w1)
                   | Inr d \<Rightarrow> emit listener (BidAcceptedEvent d) w1)
                else if ty = Some (JString ''pong'') then (None, w1)
                else (None, effect (Logged ''Unknown message type'') w1))))"

text \<open>
  \<^verbatim>\<open>handleMessage\<close>: the \<^verbatim>\<open>catch\<close> clause logs whatever the block threw.  The first
  component of the result is the exception that leaves \<^verbatim>\<open>handleMessage\<close>.
\<close>

definition handleMessage ::
  "(string \<Rightarrow> json option) \<Rightarrow> (ws_event \<Rightarrow> thrown option) \<Rightarrow> ws_config \<Rightarrow> string \<Rightarrow> ws_world
     \<Rightarrow> thrown option \<times> ws_world" where
  "handleMessage parse listener config dat w =
     (case handleMessageTry parse listener config dat w of
        (None, w') \<Rightarrow> (None, w')
      | (Some error, w') \<Rightarrow> (None, effect (Logged ''Failed to parse WebSocket message'') w'))"















fun isEmitted :: "ws_effect \<Rightarrow> bool" where
  "isEmitted (Emitted _) = True"
| "isEmitted _ = False"

fun isLogged :: "ws_effect \<Rightarrow> bool" where
  "isLogged (Logged _) = True"
| "isLogged _ = False"

section \<open>Pricing and eligibility (loops/bidding.ts, loops/liquidation.ts)\<close>

text \<open>
  Amounts are handled through the \<^verbatim>\<open>BigNumber\<close> class of the package @0x/utils, which
  is not part of the repository.  Its operations are parameters of the model: a record
  of functions over an arbitrary carrier \<open>'bn\<close>.  \<open>bnNew\<close> is the constructor applied to a
  string, with \<open>None\<close> for \<^verbatim>\<open>undefined\<close>; \<open>bnOfNumber\<close> is the constructor applied to a
  JavaScript number.
\<close>

record 'bn bignumber_ops =
  bnNew :: "string option \<Rightarrow> 'bn"
  bnOfNumber :: "rat \<Rightarrow> 'bn"
  bnIsZero :: "'bn \<Rightarrow> bool"
  bnIsLessThan :: "'bn \<Rightarrow> 'bn \<Rightarrow> bool"
  bnMultipliedBy :: "'bn \<Rightarrow> 'bn \<Rightarrow> 'bn"
  bnMinus :: "'bn \<Rightarrow> 'bn \<Rightarrow> 'bn"
  bnPow :: "'bn \<Rightarrow> nat \<Rightarrow> 'bn"
  bnIntegerValue :: "'bn \<Rightarrow> 'bn"
  bnToString :: "'bn \<Rightarrow> string"
  bnToFixed0 :: "'bn \<Rightarrow> string"

record app_config =
  marketMakerAddress :: string
  acceptedTokens :: "string list"
  priceSpread :: rat
  liquidationSpread :: rat
  minBidAmountWei :: string
  supportedChains :: "int list"

text \<open>
  The fields of \<^verbatim>\<open>RFQOrderFromMetadata\<close>, and of the order handed to \<^verbatim>\<open>signLimitOrder\<close>
  (which for a liquidation leaves the last four fields out).
\<close>

record rfq_order =
  orderChainId :: int
  verifyingContract :: string
  taker :: string
  makerToken :: string
  takerToken :: string
  takerAmount :: string
  pool :: string
  sender :: string
  feeRecipient :: string
  takerTokenFeeAmount :: string
  orderExpiry :: int
  salt :: string

record order_fields =
  ofChainId :: int
  ofVerifyingContract :: string
  ofMaker :: string
  ofTaker :: string
  ofMakerToken :: string
  ofTakerToken :: string
  ofMakerAmount :: string
  ofTakerAmount :: string
  ofExpiry :: int
  ofSalt :: string
  ofPool :: "string option"
  ofSender :: "string option"
  ofFeeRecipient :: "string option"
  ofTakerTokenFeeAmount :: "string option"

record rfq_request =
  requestId :: string
  redeemAsset :: string
  redeemAmount :: string
  chainId :: int
  expiry :: int
  metadataRfqOrder :: "rfq_order option"

text \<open>
  \<^verbatim>\<open>shouldBidOnRequest\<close>.  \<^verbatim>\<open>cfg.acceptedTokens[0]\<close> of an empty array is undefined, which
  differs from \<^verbatim>\<open>'*'\<close>.  \<open>now\<close> is \<^verbatim>\<open>Date.now()\<close> in milliseconds.  The debug log lines
  written before each \<^verbatim>\<open>return false\<close> are left out.
\<close>

definition shouldBidOnRequest :: "'bn bignumber_ops \<Rightarrow> int \<Rightarrow> rfq_request \<Rightarrow> app_config \<Rightarrow> bool" where
  "shouldBidOnRequest bn now request cfg =
     (if (case acceptedTokens cfg of [] \<Rightarrow> True | t # ts \<Rightarrow> t \<noteq> ''*'')
         \<and> \<not> list_ex (\<lambda>t. toLowerCase t = toLowerCase (redeemAsset request)) (acceptedTokens cfg)
      then False
      else if bnIsLessThan bn (bnNew bn (Some (redeemAmount request)))
                (bnNew bn (Some (minBidAmountWei cfg)))
      then False
      else if chainId request \<notin> set (supportedChains cfg) then False
      else if expiry request - now div 1000 < 30 then False
      else True)"

definition calculateQuote :: "'bn bignumber_ops \<Rightarrow> rfq_request \<Rightarrow> app_config \<Rightarrow> string" where
  "calculateQuote bn request cfg =
     bnToString bn
       (bnIntegerValue bn
          (bnMultipliedBy bn (bnNew bn (Some (redeemAmount request))) (bnOfNumber bn (priceSpread cfg))))"

text \<open>
  The liquidation record.  \<^verbatim>\<open>collateralAmountThatCanBeSeized\<close> is typed as a string but
  arrives from the service, so it can be missing (\<open>None\<close>); the asset decimals are read
  with \<^verbatim>\<open>?? 6\<close> and can be missing as well.
\<close>

record liquidation =
  liquidationId :: string
  collateralAsset :: string
  borrowedAmount :: string
  collateralAmountThatCanBeSeized :: "string option"
  healthFactor :: rat
  liqChainId :: int
  exchangeProxy :: string
  baseFeedPrice :: rat
  borrowedAssetId :: string
  borrowedAssetDecimals :: "nat option"
  collateralAssetDecimals :: "nat option"

record liquidation_amounts =
  debtToRepay :: string
  collateralToSeize :: string
  profit :: string
  collateralDecimals :: nat
  decimals :: nat

definition MAX_LIQUIDATION_RATIO :: rat where
  "MAX_LIQUIDATION_RATIO = 8 / 10"

text \<open>\<^verbatim>\<open>!s\<close> for a string that may be missing: true for undefined and for the empty string.\<close>

fun falsy :: "string option \<Rightarrow> bool" where
  "falsy None = True"
| "falsy (Some s) = (s = [])"

definition calculateLiquidationAmounts :: "'bn bignumber_ops \<Rightarrow> liquidation \<Rightarrow> liquidation_amounts" where
  "calculateLiquidationAmounts bn liq =
     (let debtAmount = bnNew bn (Some (borrowedAmount liq));
          collateralAmount = bnNew bn (collateralAmountThatCanBeSeized liq)
      in if falsy (collateralAmountThatCanBeSeized liq) \<or> bnIsZero bn collateralAmount then
           \<lparr>debtToRepay = ''0'', collateralToSeize = ''0'', profit = ''0'',
            collateralDecimals = 6, decimals = 6\<rparr>
         else
           (let debt = bnMultipliedBy bn debtAmount (bnOfNumber bn MAX_LIQUIDATION_RATIO);
                collateral = bnMultipliedBy bn collateralAmount (bnOfNumber bn MAX_LIQUIDATION_RATIO);
                dec = (case borrowedAssetDecimals liq of Some d \<Rightarrow> d | None \<Rightarrow> 6);
                cdec = (case collateralAssetDecimals liq of Some d \<Rightarrow> d | None \<Rightarrow> 6);
                gain = bnMinus bn collateral debt
            in \<lparr>debtToRepay =
                  bnToString bn (bnIntegerValue bn
                    (bnMultipliedBy bn debt (bnPow bn (bnOfNumber bn 10) dec))),
                collateralToSeize =
                  bnToString bn (bnIntegerValue bn
                    (bnMultipliedBy bn collateral (bnPow bn (bnOfNumber bn 10) cdec))),
                profit = bnToString bn gain,
                collateralDecimals = cdec,
                decimals = dec\<rparr>))"

definition calculateLiquidationQuote :: "'bn bignumber_ops \<Rightarrow> string \<Rightarrow> rat \<Rightarrow> app_config \<Rightarrow> string" where
  "calculateLiquidationQuote bn collateral feedPrice cfg =
     (let collateralAmount = bnNew bn (Some collateral);
          debtValueWei = bnMultipliedBy bn collateralAmount (bnOfNumber bn feedPrice);
          quote = bnIntegerValue bn (bnMultipliedBy bn debtValueWei (bnOfNumber bn (liquidationSpread cfg)))
      in bnToFixed0 bn quote)"

definition shouldLiquidate :: "liquidation \<Rightarrow> liquidation_amounts \<Rightarrow> app_config \<Rightarrow> bool" where
  "shouldLiquidate liq amounts cfg =
     (if healthFactor liq \<ge> 1 then False
      else if liqChainId liq \<notin> set (supportedChains cfg) then False
      else if debtToRepay amounts = ''0'' \<or> collateralToSeize amounts = ''0'' then False
      else True)"

text \<open>
  \<^verbatim>\<open>processSingleLiquidation\<close>.  What it does to the outside is the sequence of its calls:
  the token approval, the signing of the order, the trigger request and the
  notifications.  The outcome of each awaited call, the expiry and the salt come from the
  surroundings.  Anything thrown inside is caught, logged and reported with
  \<^verbatim>\<open>notifyApiError\<close>.  \<^verbatim>\<open>parseFloat(s) / Math.pow(10, d)\<close> is the parameter \<open>scaleDown\<close>.
\<close>

datatype outbound_call =
    ApproveToken string string string
  | SignOrder order_fields
  | TriggerLiquidation string string string rat
  | SubmitBid string string string string
  | NotifyLiquidationTriggered string "string option" string
  | NotifyApiError string thrown string

record liquidation_env =
  calculateExpiry :: "nat \<Rightarrow> int"
  generateSalt :: string
  scaleDown :: "string \<Rightarrow> nat \<Rightarrow> rat"
  approveOutcome :: "thrown option"
  signOutcome :: "thrown + string"
  triggerOutcome :: "thrown + string option"

definition zeroAddress :: string where
  "zeroAddress = ''0x0000000000000000000000000000000000000000''"

definition processSingleLiquidation ::
  "'bn bignumber_ops \<Rightarrow> liquidation_env \<Rightarrow> liquidation \<Rightarrow> app_config \<Rightarrow> outbound_call list" where
  "processSingleLiquidation bn env liq cfg =
     (let amounts = calculateLiquidationAmounts bn liq in
      if \<not> shouldLiquidate liq amounts cfg then []
      else
        (let orderExp = calculateExpiry env 20;
             makerAmount = calculateLiquidationQuote bn (collateralToSeize amounts) (baseFeedPrice liq) cfg;
             makerAmountWithBuffer =
               bnToString bn (bnIntegerValue bn
                 (bnMultipliedBy bn (bnNew bn (Some makerAmount)) (bnOfNumber bn (101 / 100))));
             takerAmountWithBuffer =
               bnToString bn (bnIntegerValue bn
                 (bnMultipliedBy bn (bnNew bn (Some (collateralToSeize amounts)))
                    (bnOfNumber bn (101 / 100))));
             approval = ApproveToken (exchangeProxy liq) makerAmountWithBuffer (borrowedAssetId liq);
             order = \<lparr>ofChainId = liqChainId liq, ofVerifyingContract = exchangeProxy liq,
                       ofMaker = marketMakerAddress cfg, ofTaker = zeroAddress,
                       ofMakerToken = borrowedAssetId liq, ofTakerToken = collateralAsset liq,
                       ofMakerAmount = makerAmountWithBuffer, ofTakerAmount = takerAmountWithBuffer,
                       ofExpiry = orderExp, ofSalt = generateSalt env,
                       ofPool = None, ofSender = None, ofFeeRecipient = None,
                       ofTakerTokenFeeAmount = None\<rparr>
         in case approveOutcome env of
              Some error \<Rightarrow>
                [approval, NotifyApiError ''Liquidation trigger'' error (liquidationId liq)]
            | None \<Rightarrow>
                (case signOutcome env of
                   Inl error \<Rightarrow>
                     [approval, SignOrder order,
                      NotifyApiError ''Liquidation trigger'' error (liquidationId liq)]
                 | Inr signature \<Rightarrow>
                     (let trigger = TriggerLiquidation (liquidationId liq) (marketMakerAddress cfg)
                                      signature
                                      (scaleDown env (debtToRepay amounts) (decimals amounts))
                      in case triggerOutcome env of
                           Inl error \<Rightarrow>
                             [approval, SignOrder order, trigger,
                              NotifyApiError ''Liquidation trigger'' error (liquidationId liq)]
                         | Inr hash \<Rightarrow>
                             [approval, SignOrder order, trigger,
                              NotifyLiquidationTriggered (liquidationId liq) hash
                                (profit amounts)]))))"

text \<open>
  A small instance of the \<^verbatim>\<open>BigNumber\<close> operations, for running the model on concrete
  inputs: exact rationals with \<open>None\<close> for \<^verbatim>\<open>NaN\<close>, constructed from unsigned decimal
  integer literals and printed as such.
\<close>

definition digitValue :: "char \<Rightarrow> nat option" where
  "digitValue c = map_of (zip ''0123456789'' [0, 1, 2, 3, 4, 5, 6, 7, 8, 9]) c"

fun parseDecimalFrom :: "nat \<Rightarrow> string \<Rightarrow> nat option" where
  "parseDecimalFrom acc [] = Some acc"
| "parseDecimalFrom acc (c # cs) =
     (case digitValue c of None \<Rightarrow> None | Some d \<Rightarrow> parseDecimalFrom (10 * acc + d) cs)"

definition parseDecimal :: "string \<Rightarrow> nat option" where
  "parseDecimal s = (if s = [] then None else parseDecimalFrom 0 s)"

definition printRat :: "rat option \<Rightarrow> string" where
  "printRat x =
     (case x of
        None \<Rightarrow> ''NaN''
      | Some r \<Rightarrow> (if r \<ge> 0 \<and> of_int \<lfloor>r\<rfloor> = r then decimal (nat \<lfloor>r\<rfloor>) else ''NaN''))"

definition ratBigNumber :: "rat option bignumber_ops" where
  "ratBigNumber =
     \<lparr>bnNew = (\<lambda>s. case s of None \<Rightarrow> None | Some str \<Rightarrow> map_option of_nat (parseDecimal str)),
      bnOfNumber = Some,
      bnIsZero = (\<lambda>x. x = Some 0),
      bnIsLessThan = (\<lambda>x y. case (x, y) of (Some a, Some b) \<Rightarrow> a < b | _ \<Rightarrow> False),
      bnMultipliedBy = (\<lambda>x y. case (x, y) of (Some a, Some b) \<Rightarrow> Some (a * b) | _ \<Rightarrow> None),
      bnMinus = (\<lambda>x y. case (x, y) of (Some a, Some b) \<Rightarrow> Some (a - b) | _ \<Rightarrow> None),
      bnPow = (\<lambda>x n. map_option (\<lambda>a. a ^ n) x),
      bnIntegerValue = map_option (\<lambda>a. of_int (round a)),
      bnToString = printRat,
      bnToFixed0 = printRat\<rparr>"

section \<open>The bidding loop and its stream handler (loops/bidding.ts)\<close>

text \<open>
  \<^verbatim>\<open>processSingleRequest\<close> is an async function with three awaited calls: the token
  approval, the signing of the order and \<^verbatim>\<open>submitBid\<close>.  It runs without interruption up
  to an \<^verbatim>\<open>await\<close>, where it is suspended until the awaited call settles; in between, the
  event loop may run any other handler.  A suspended call is a task: the channel that
  started it, the request, the order metadata, the quote, the signature once there is
  one, and the call it waits for.
\<close>

datatype channel = Poll | Stream

datatype bid_stage = AwaitApprove | AwaitSign | AwaitSubmit

datatype bid_task = Task channel rfq_request rfq_order string bid_stage

fun taskChannel :: "bid_task \<Rightarrow> channel" where
  "taskChannel (Task ch request order makerAmount stage) = ch"

fun taskRequestId :: "bid_task \<Rightarrow> string" where
  "taskRequestId (Task ch request order makerAmount stage) = requestId request"

record bidding_state =
  processedRequests :: processed_map
  inFlight :: "bid_task list"
  outbound :: "outbound_call list"
  clock :: int

definition startOfBidding :: "int \<Rightarrow> bidding_state" where
  "startOfBidding now = \<lparr>processedRequests = [], inFlight = [], outbound = [], clock = now\<rparr>"

definition call :: "outbound_call \<Rightarrow> bidding_state \<Rightarrow> bidding_state" where
  "call c st = st\<lparr>outbound := outbound st @ [c]\<rparr>"

text \<open>
  Both callers mark the id once the promise of \<^verbatim>\<open>processSingleRequest\<close> has resolved: the
  polling loop in the statement after its \<^verbatim>\<open>await\<close>, the stream handler in \<^verbatim>\<open>.then\<close>.  The
  promise always resolves, since the function catches whatever is thrown inside.
\<close>

definition markProcessed :: "string \<Rightarrow> bidding_state \<Rightarrow> bidding_state" where
  "markProcessed rid st = st\<lparr>processedRequests := map_set (processedRequests st) rid (clock st)\<rparr>"

text \<open>
  The part of \<^verbatim>\<open>processSingleRequest\<close> before its first \<^verbatim>\<open>await\<close>.  A request that is not
  eligible, or has no order metadata, makes the function return at once, and the caller
  marks the id.  Otherwise the approval is requested and the call is suspended.
\<close>

definition beginProcessSingleRequest ::
  "'bn bignumber_ops \<Rightarrow> app_config \<Rightarrow> channel \<Rightarrow> rfq_request \<Rightarrow> bidding_state \<Rightarrow> bidding_state" where
  "beginProcessSingleRequest bn cfg ch request st =
     (if \<not> shouldBidOnRequest bn (clock st) request cfg then markProcessed (requestId request) st
      else
        (case metadataRfqOrder request of
           None \<Rightarrow> markProcessed (requestId request) st
         | Some metadata \<Rightarrow>
             (let makerAmount = calculateQuote bn request cfg;
                  st1 = call (ApproveToken (verifyingContract metadata) makerAmount (makerToken metadata)) st
              in st1\<lparr>inFlight := inFlight st1 @ [Task ch request metadata makerAmount AwaitApprove]\<rparr>)))"

definition orderToSign :: "app_config \<Rightarrow> rfq_order \<Rightarrow> string \<Rightarrow> order_fields" where
  "orderToSign cfg metadata makerAmount =
     \<lparr>ofChainId = orderChainId metadata, ofVerifyingContract = verifyingContract metadata,
      ofMaker = marketMakerAddress cfg, ofTaker = taker metadata,
      ofMakerToken = makerToken metadata, ofTakerToken = takerToken metadata,
      ofMakerAmount = makerAmount, ofTakerAmount = takerAmount metadata,
      ofExpiry = orderExpiry metadata, ofSalt = salt metadata,
      ofPool = Some (pool metadata), ofSender = Some (sender metadata),
      ofFeeRecipient = Some (feeRecipient metadata),
      ofTakerTokenFeeAmount = Some (takerTokenFeeAmount metadata)\<rparr>"

text \<open>
  The resumption of a suspended call when the awaited call settles, with \<open>Inl\<close> for a
  rejection and \<open>Inr\<close> for the value (the signature, for the signing).  The result is the
  task that is suspended next, if any, and the outbound calls made on the way.
\<close>

fun resume :: "app_config \<Rightarrow> bid_task \<Rightarrow> thrown + string \<Rightarrow> bid_task option \<times> outbound_call list" where
  "resume cfg (Task ch request metadata makerAmount stage) (Inl error) =
     (None, [NotifyApiError ''Bid submission'' error (requestId request)])"
| "resume cfg (Task ch request metadata makerAmount AwaitApprove) (Inr v) =
     (Some (Task ch request metadata makerAmount AwaitSign),
      [SignOrder (orderToSign cfg metadata makerAmount)])"
| "resume cfg (Task ch request metadata makerAmount AwaitSign) (Inr signature) =
     (Some (Task ch request metadata makerAmount AwaitSubmit),
      [SubmitBid (requestId request) (marketMakerAddress cfg) makerAmount signature])"
| "resume cfg (Task ch request metadata makerAmount AwaitSubmit) (Inr v) = (None, [])"

fun replaceFirst :: "('a \<Rightarrow> bool) \<Rightarrow> 'a option \<Rightarrow> 'a list \<Rightarrow> 'a list" where
  "replaceFirst P y [] = []"
| "replaceFirst P y (x # xs) =
     (if P x then (case y of None \<Rightarrow> xs | Some x' \<Rightarrow> x' # xs) else x # replaceFirst P y xs)"

definition settle ::
  "app_config \<Rightarrow> channel \<Rightarrow> string \<Rightarrow> thrown + string \<Rightarrow> bidding_state \<Rightarrow> bidding_state" where
  "settle cfg ch rid outcome st =
     (let waiting = (\<lambda>t. taskChannel t = ch \<and> taskRequestId t = rid) in
      case find waiting (inFlight st) of
        None \<Rightarrow> st
      | Some t \<Rightarrow>
          (case resume cfg t outcome of
             (next, calls) \<Rightarrow>
               (let st1 = st\<lparr>inFlight := replaceFirst waiting next (inFlight st),
                              outbound := outbound st @ calls\<rparr>
                in if next = None then markProcessed rid st1 else st1)))"

text \<open>
  What the event loop can run next: the polling loop reaches a request of the list it
  fetched, the stream client hands an \<^verbatim>\<open>rfq_request\<close> event to \<^verbatim>\<open>handleWebSocketEvent\<close>, an
  awaited call of a suspended task settles, the polling loop reaches its clean-up, or
  time passes.  The polling loop awaits each request before it takes the next, so it
  does nothing while a task of its own is suspended.
\<close>

datatype bid_action =
    PollObserves rfq_request
  | StreamObserves rfq_request
  | Settles channel string "thrown + string"
  | PollCleanup
  | Advance nat

definition pollSuspended :: "bidding_state \<Rightarrow> bool" where
  "pollSuspended st = list_ex (\<lambda>t. taskChannel t = Poll) (inFlight st)"

fun bid_step :: "'bn bignumber_ops \<Rightarrow> app_config \<Rightarrow> bid_action \<Rightarrow> bidding_state \<Rightarrow> bidding_state" where
  "bid_step bn cfg (PollObserves request) st =
     (if pollSuspended st then st
      else if map_has (processedRequests st) (requestId request) then st
      else beginProcessSingleRequest bn cfg Poll request st)"
| "bid_step bn cfg (StreamObserves request) st =
     (if map_has (processedRequests st) (requestId request) then st
      else beginProcessSingleRequest bn cfg Stream request st)"
| "bid_step bn cfg (Settles ch rid outcome) st = settle cfg ch rid outcome st"
| "bid_step bn cfg PollCleanup st =
     (if pollSuspended st then st
      else st\<lparr>processedRequests := cleanupProcessedRequests (clock st) (processedRequests st)\<rparr>)"
| "bid_step bn cfg (Advance ms) st = st\<lparr>clock := clock st + int ms\<rparr>"

fun bid_run :: "'bn bignumber_ops \<Rightarrow> app_config \<Rightarrow> bid_action list \<Rightarrow> bidding_state \<Rightarrow> bidding_state" where
  "bid_run bn cfg [] st = st"
| "bid_run bn cfg (a # as) st = bid_run bn cfg as (bid_step bn cfg a st)"

fun isSubmissionFor :: "string \<Rightarrow> outbound_call \<Rightarrow> bool" where
  "isSubmissionFor rid (SubmitBid r maker makerAmount signature) = (r = rid)"
| "isSubmissionFor rid _ = False"

definition submissionsFor :: "string \<Rightarrow> bidding_state \<Rightarrow> nat" where
  "submissionsFor rid st = length (filter (isSubmissionFor rid) (outbound st))"

section \<open>Properties of the WalletManager\<close>

lemma syncNonce_sets_nonce:
  "syncNonce p w m = Inr m1 \<Longrightarrow> currentNonce m1 \<noteq> None"
  by (auto simp: syncNonce_def split: sum.splits)




text \<open>
  C3.  The contract of \<^verbatim>\<open>executeTransaction(fn)\<close>.  Let \<open>n\<close> be the cached nonce, or,
  when the cache is null, the pending-inclusive transaction count that the ledger
  returns (which is then cached and logged).  The callback is invoked with \<open>n\<close> on the
  current world.  If it succeeds, its result is returned and the cached nonce becomes
  \<open>n + 1\<close>; if it throws, the same error is re-raised and the cached nonce becomes null.
  A call that starts from a null cache with a ledger answering \<open>k\<close> hands \<open>k\<close> to its
  callback, so after a failure the next allocation comes from a fresh ledger query.
\<close>

theorem executeTransaction_contract:
  assumes "currentNonce m = Some n \<or> (currentNonce m = None \<and> getTransactionCount w = Inr n)"
  shows "executeTransaction getTransactionCount fn (m, w) =
     (let synced = (if currentNonce m = None then [NonceSynced n] else []);
          log' = walletLog m @ synced @ [ExecutingTransaction n]
      in case fn n w of
           (Inr result, w') \<Rightarrow> (Inr result, \<lparr>currentNonce = Some (n + 1), walletLog = log'\<rparr>, w')
         | (Inl error, w') \<Rightarrow> (Inl error, \<lparr>currentNonce = None, walletLog = log'\<rparr>, w'))"
  using assms
  by (auto simp: executeTransaction_def syncNonce_def Let_def split: sum.splits prod.splits)

theorem executeTransaction_contract_witness:
  "executeTransaction Inr (\<lambda>n w. (Inr (n * 10), Suc w)) (newWalletManager, 7 :: nat)
     = (Inr 70, \<lparr>currentNonce = Some 8, walletLog = [NonceSynced 7, ExecutingTransaction 7]\<rparr>, 8)
   \<and> executeTransaction Inr (\<lambda>n w. (Inl (ErrorInstance ''nonce too low'' None None) :: thrown + nat, w))
         (\<lparr>currentNonce = Some 3, walletLog = []\<rparr>, 7 :: nat)
     = (Inl (ErrorInstance ''nonce too low'' None None),
        \<lparr>currentNonce = None, walletLog = [ExecutingTransaction 3]\<rparr>, 7)"
proof -
  have a: "currentNonce newWalletManager = Some 7
      \<or> (currentNonce newWalletManager = None \<and> (Inr :: nat \<Rightarrow> thrown + nat) 7 = Inr 7)"
    by (simp add: newWalletManager_def)
  have b: "currentNonce \<lparr>currentNonce = Some 3, walletLog = []\<rparr> = Some 3
      \<or> (currentNonce \<lparr>currentNonce = Some 3, walletLog = []\<rparr> = None
          \<and> (Inr :: nat \<Rightarrow> thrown + nat) 7 = Inr 3)"
    by simp
  show ?thesis
    using executeTransaction_contract
        [where m = newWalletManager and n = 7 and w = "7 :: nat" and getTransactionCount = Inr
           and fn = "\<lambda>n w. (Inr (n * 10), Suc w)", OF a]
      executeTransaction_contract
        [where m = "\<lparr>currentNonce = Some 3, walletLog = []\<rparr>" and n = 3 and w = "7 :: nat"
           and getTransactionCount = Inr
           and fn = "\<lambda>n w. (Inl (ErrorInstance ''nonce too low'' None None) :: thrown + nat, w)", OF b]
    by (simp add: newWalletManager_def)
qed






section \<open>Properties of the retry utility\<close>

lemma str_includes_sublist: "str_includes hay needle \<longleftrightarrow> sublist needle hay"
  by (induction hay) (auto simp: sublist_Cons_right)

lemma withRetry_not_retryable:
  assumes "retryableErrors options = Some f" and "\<not> f e" and "1 \<le> maxAttempts options"
    and "fn s = (Inl e, s')"
  shows "withRetry options fn s = (Inl e, s', [Invoked])"
  using assms by (simp add: withRetry_def)

lemma withRetry_two_attempts:
  assumes "case retryableErrors options of Some f \<Rightarrow> f e1 | None \<Rightarrow> True"
    and "maxAttempts options = 2"
    and "fn s = (Inl e1, s1)" and "fn s1 = (Inl e2, s2)"
  shows "withRetry options fn s =
           (Inl e2, s2, [Invoked, Delayed (initialDelayMs options), Invoked])"
  using assms by (simp add: withRetry_def split: option.splits)

lemma withRetry_three_attempts:
  assumes "case retryableErrors options of Some f \<Rightarrow> f e1 \<and> f e2 | None \<Rightarrow> True"
    and "maxAttempts options = 3"
    and "fn s = (Inl e1, s1)" and "fn s1 = (Inl e2, s2)" and "fn s2 = (Inl e3, s3)"
  shows "withRetry options fn s =
           (Inl e3, s3,
            [Invoked, Delayed (initialDelayMs options), Invoked,
             Delayed (min (initialDelayMs options * backoffMultiplier options) (maxDelayMs options)),
             Invoked])"
  using assms by (simp add: withRetry_def split: option.splits)

lemma isRetryableTxError_iff:
  "isRetryableTxError e \<longleftrightarrow>
     (\<exists>m. messageOf e = Some m
          \<and> (sublist ''nonce'' (toLowerCase m) \<or> sublist ''replacement fee'' (toLowerCase m)))
     \<or> codeOf e = Some ''NETWORK_ERROR'' \<or> codeOf e = Some ''TIMEOUT''"
  by (cases e) (auto simp: isRetryableTxError_def str_includes_sublist split: option.splits)

text \<open>
  C5 as stated fails on two counts.  Under \<^verbatim>\<open>TX_RETRY_DEFAULTS\<close> an operation that keeps
  failing with a nonce error is invoked twice, not three times (\<^verbatim>\<open>maxAttempts\<close> is 2),
  with a single wait of 2000 ms; and an error whose code is \<^verbatim>\<open>TIMEOUT\<close> is classified
  as retryable although its message mentions neither a nonce nor a replacement fee.
\<close>

theorem TX_RETRY_DEFAULTS_counterexample:
  "withRetry TX_RETRY_DEFAULTS
       (\<lambda>s :: nat. (Inl (ErrorInstance ''nonce too low'' None None) :: thrown + unit, Suc s)) 0
     = (Inl (ErrorInstance ''nonce too low'' None None), 2, [Invoked, Delayed 2000, Invoked])
   \<and> isRetryableTxError (ErrorInstance ''socket hang up'' (Some ''TIMEOUT'') None)"
  by (simp add: withRetry_def TX_RETRY_DEFAULTS_def isRetryableTxError_def toLowerCase_def
      toLowerCaseChar_def)

text \<open>
  C5, amended.  The submission retry policy allows 2 attempts (1 retry) with a 2000 ms
  initial delay, a growth multiplier of 1.5 and a 5000 ms cap.  It classifies a thrown
  value as retryable exactly when it is an object whose lower-cased message contains
  \<^verbatim>\<open>nonce\<close> or \<^verbatim>\<open>replacement fee\<close>, or whose code is \<^verbatim>\<open>NETWORK_ERROR\<close> or
  \<^verbatim>\<open>TIMEOUT\<close>.  An operation that fails twice, the first time with a retryable error,
  is invoked exactly twice with one wait of 2000 ms, and its second error is propagated.
\<close>

theorem TX_RETRY_DEFAULTS_policy:
  "maxAttempts TX_RETRY_DEFAULTS = 2
   \<and> initialDelayMs TX_RETRY_DEFAULTS = 2000
   \<and> backoffMultiplier TX_RETRY_DEFAULTS = 3 / 2
   \<and> maxDelayMs TX_RETRY_DEFAULTS = 5000
   \<and> retryableErrors TX_RETRY_DEFAULTS = Some isRetryableTxError
   \<and> (isRetryableTxError e \<longleftrightarrow>
        (\<exists>m. messageOf e = Some m
             \<and> (sublist ''nonce'' (toLowerCase m) \<or> sublist ''replacement fee'' (toLowerCase m)))
        \<or> codeOf e = Some ''NETWORK_ERROR'' \<or> codeOf e = Some ''TIMEOUT'')
   \<and> (isRetryableTxError e1 \<and> fn s = (Inl e1, s1) \<and> fn s1 = (Inl e2, s2) \<longrightarrow>
        withRetry TX_RETRY_DEFAULTS fn s = (Inl e2, s2, [Invoked, Delayed 2000, Invoked]))"
proof -
  have "withRetry TX_RETRY_DEFAULTS fn s = (Inl e2, s2, [Invoked, Delayed 2000, Invoked])"
    if "isRetryableTxError e1" "fn s = (Inl e1, s1)" "fn s1 = (Inl e2, s2)"
    using withRetry_two_attempts
        [where options = TX_RETRY_DEFAULTS and ?e1.0 = e1 and fn = fn and s = s and ?s1.0 = s1
           and ?e2.0 = e2 and ?s2.0 = s2] that
    by (simp add: TX_RETRY_DEFAULTS_def)
  then show ?thesis
    using isRetryableTxError_iff [of e] by (simp add: TX_RETRY_DEFAULTS_def)
qed

theorem TX_RETRY_DEFAULTS_policy_witness:
  "isRetryableTxError (ErrorInstance ''Nonce too low'' None None)
   \<and> isRetryableTxError (PlainObject (Some ''Replacement fee too low'') None None)
   \<and> withRetry TX_RETRY_DEFAULTS
         (\<lambda>s :: nat. (Inl (PlainObject (Some ''Replacement fee too low'') None None) :: thrown + unit,
                      Suc s)) 0
       = (Inl (PlainObject (Some ''Replacement fee too low'') None None), 2,
          [Invoked, Delayed 2000, Invoked])"
proof -
  let ?e = "PlainObject (Some ''Replacement fee too low'') None None"
  let ?fn = "\<lambda>s :: nat. (Inl ?e :: thrown + unit, Suc s)"
  have r: "isRetryableTxError ?e" "isRetryableTxError (ErrorInstance ''Nonce too low'' None None)"
    by (simp_all add: isRetryableTxError_def toLowerCase_def toLowerCaseChar_def)
  have f: "?fn 0 = (Inl ?e, 1)" "?fn 1 = (Inl ?e, 2)"
    by simp_all
  show ?thesis
    using TX_RETRY_DEFAULTS_policy
      [where e = ?e and ?e1.0 = ?e and fn = ?fn and s = 0 and ?s1.0 = 1 and ?e2.0 = ?e and ?s2.0 = 2]
      r f
    by blast
qed

lemma withRetry_no_attempts:
  assumes "maxAttempts options \<le> 0"
  shows "withRetry options fn s = (Inl ThrownUndefined, s, [])"
  using assms by (simp add: withRetry_def)

text \<open>
  C6 as stated fails for a policy without attempts.  With \<^verbatim>\<open>maxAttempts = 0\<close> and a
  classifier that rejects every error the loop of \<^verbatim>\<open>withRetry\<close> is never entered: the
  operation is not invoked at all (its world stays at 0), nothing is waited for, and the
  value thrown is \<^verbatim>\<open>lastError\<close>, still undefined, not an error of the operation.
\<close>

theorem withRetry_zero_attempts_counterexample:
  "withRetry \<lparr>maxAttempts = 0, initialDelayMs = 1000, maxDelayMs = 1500, backoffMultiplier = 2,
               retryableErrors = Some (\<lambda>x. False)\<rparr>
       (\<lambda>s :: nat. (Inl (Primitive ''boom'') :: thrown + unit, Suc s)) 0
     = (Inl ThrownUndefined, 0, [])"
  by (simp add: withRetry_def)

text \<open>
  C6, amended.  With a classifier that rejects every error and a maximum of at least one
  attempt, \<^verbatim>\<open>withRetry\<close> invokes a failing operation exactly once, waits for nothing and
  propagates the operation's error.  With a classifier that accepts every error (or with
  none, which means the same) and \<^verbatim>\<open>maxAttempts = 3\<close>, an operation that fails three
  times in a row is invoked exactly three times, with a wait of \<open>d\<close> before the second
  attempt and of \<open>min (d * m) cap\<close> before the third, and the third error is propagated.
  With a maximum of zero attempts or fewer the operation is never invoked and
  \<^verbatim>\<open>undefined\<close> is thrown.
\<close>

theorem withRetry_attempts:
  "(retryableErrors options = Some f \<and> (\<forall>x. \<not> f x) \<and> 1 \<le> maxAttempts options
      \<and> fn s = (Inl e, s') \<longrightarrow>
        withRetry options fn s = (Inl e, s', [Invoked]))
   \<and> ((case retryableErrors options of Some g \<Rightarrow> \<forall>x. g x | None \<Rightarrow> True)
      \<and> maxAttempts options = 3
      \<and> fn s = (Inl e1, s1) \<and> fn s1 = (Inl e2, s2) \<and> fn s2 = (Inl e3, s3) \<longrightarrow>
        withRetry options fn s =
          (Inl e3, s3,
           [Invoked, Delayed (initialDelayMs options), Invoked,
            Delayed (min (initialDelayMs options * backoffMultiplier options) (maxDelayMs options)),
            Invoked]))
   \<and> (maxAttempts options \<le> 0 \<longrightarrow> withRetry options fn s = (Inl ThrownUndefined, s, []))"
proof (intro conjI impI)
  assume "retryableErrors options = Some f \<and> (\<forall>x. \<not> f x) \<and> 1 \<le> maxAttempts options
      \<and> fn s = (Inl e, s')"
  then show "withRetry options fn s = (Inl e, s', [Invoked])"
    using withRetry_not_retryable
        [where options = options and f = f and e = e and fn = fn and s = s and s' = s']
    by blast
next
  assume a: "(case retryableErrors options of Some g \<Rightarrow> \<forall>x. g x | None \<Rightarrow> True)
      \<and> maxAttempts options = 3
      \<and> fn s = (Inl e1, s1) \<and> fn s1 = (Inl e2, s2) \<and> fn s2 = (Inl e3, s3)"
  then have "case retryableErrors options of Some g \<Rightarrow> g e1 \<and> g e2 | None \<Rightarrow> True"
    by (simp split: option.splits)
  with a show "withRetry options fn s =
          (Inl e3, s3,
           [Invoked, Delayed (initialDelayMs options), Invoked,
            Delayed (min (initialDelayMs options * backoffMultiplier options) (maxDelayMs options)),
            Invoked])"
    using withRetry_three_attempts
        [where options = options and ?e1.0 = e1 and ?e2.0 = e2 and fn = fn and s = s
           and ?s1.0 = s1 and ?s2.0 = s2 and ?e3.0 = e3 and ?s3.0 = s3]
    by blast
next
  assume "maxAttempts options \<le> 0"
  then show "withRetry options fn s = (Inl ThrownUndefined, s, [])"
    by (rule withRetry_no_attempts)
qed

theorem withRetry_attempts_witness:
  "withRetry \<lparr>maxAttempts = 3, initialDelayMs = 1000, maxDelayMs = 1500, backoffMultiplier = 2,
               retryableErrors = Some (\<lambda>x. False)\<rparr>
       (\<lambda>s :: nat. (Inl (Primitive ''boom'') :: thrown + unit, Suc s)) 0
     = (Inl (Primitive ''boom''), 1, [Invoked])
   \<and> withRetry \<lparr>maxAttempts = 3, initialDelayMs = 1000, maxDelayMs = 1500, backoffMultiplier = 2,
                 retryableErrors = Some (\<lambda>x. True)\<rparr>
       (\<lambda>s :: nat. (Inl (Primitive ''boom'') :: thrown + unit, Suc s)) 0
     = (Inl (Primitive ''boom''), 3, [Invoked, Delayed 1000, Invoked, Delayed 1500, Invoked])"
proof -
  let ?fn = "\<lambda>s :: nat. (Inl (Primitive ''boom'') :: thrown + unit, Suc s)"
  let ?never = "\<lparr>maxAttempts = 3, initialDelayMs = 1000, maxDelayMs = 1500, backoffMultiplier = 2,
                 retryableErrors = Some (\<lambda>x :: thrown. False)\<rparr>"
  let ?always = "\<lparr>maxAttempts = 3, initialDelayMs = 1000, maxDelayMs = 1500, backoffMultiplier = 2,
                  retryableErrors = Some (\<lambda>x :: thrown. True)\<rparr>"
  have one: "withRetry ?never ?fn 0 = (Inl (Primitive ''boom''), 1, [Invoked])"
    using withRetry_attempts
      [where options = ?never and f = "\<lambda>x. False" and fn = ?fn and s = 0
         and e = "Primitive ''boom''" and s' = 1]
    by simp
  have three: "withRetry ?always ?fn 0
      = (Inl (Primitive ''boom''), 3, [Invoked, Delayed 1000, Invoked, Delayed 1500, Invoked])"
    using withRetry_attempts
      [where options = ?always and fn = ?fn and s = 0
         and ?e1.0 = "Primitive ''boom''" and ?s1.0 = 1
         and ?e2.0 = "Primitive ''boom''" and ?s2.0 = 2
         and ?e3.0 = "Primitive ''boom''" and ?s3.0 = 3]
    by simp
  from one three show ?thesis by blast
qed

section \<open>Properties of the processed-id caches\<close>

lemma fold_map_delete:
  "fold (\<lambda>(id, timestamp) m. if P timestamp then map_delete m id else m) xs m
     = filter (\<lambda>e. fst e \<notin> fst ` {x \<in> set xs. P (snd x)}) m"
proof (induction xs arbitrary: m)
  case Nil
  then show ?case by simp
next
  case (Cons x xs)
  obtain k v where x: "x = (k, v)" by (cases x)
  show ?case
    by (force simp: x Cons.IH map_delete_def intro!: filter_cong)
qed

lemma sweep_ttl_phase:
  assumes "distinct (map fst c)"
  shows "fold (\<lambda>(id, timestamp) m. if P timestamp then map_delete m id else m) c c
           = filter (\<lambda>e. \<not> P (snd e)) c"
proof -
  have "fst e \<notin> fst ` {x \<in> set c. P (snd x)} \<longleftrightarrow> \<not> P (snd e)" if "e \<in> set c" for e
  proof -
    have "x = e" if "x \<in> set c" "fst x = fst e" for x
      using assms that \<open>e \<in> set c\<close> by (meson distinct_map inj_onD)
    then show ?thesis using that by auto
  qed
  then show ?thesis
    unfolding fold_map_delete by (intro filter_cong) auto
qed

lemma evict_phase:
  assumes "distinct (map fst a)" and "set t \<subseteq> set a"
  shows "fold (\<lambda>(id, timestamp) m. map_delete m id) t a = filter (\<lambda>e. e \<notin> set t) a"
proof -
  have "fold (\<lambda>(id, timestamp) m. map_delete m id) t a
      = fold (\<lambda>(id, timestamp) m. if True then map_delete m id else m) t a"
    by simp
  also have "\<dots> = filter (\<lambda>e. fst e \<notin> fst ` {x \<in> set t. True}) a"
    by (rule fold_map_delete [where P = "\<lambda>_. True"])
  also have "\<dots> = filter (\<lambda>e. e \<notin> set t) a"
  proof (intro filter_cong refl)
    fix e assume e: "e \<in> set a"
    have "x = e" if "x \<in> set t" "fst x = fst e" for x
      using assms that e by (meson distinct_map inj_onD subsetD)
    then show "(fst e \<notin> fst ` {x \<in> set t. True}) = (e \<notin> set t)"
      by auto
  qed
  finally show ?thesis .
qed


lemma length_filter_remove:
  assumes "distinct a" and "distinct t" and "set t \<subseteq> set a"
  shows "length (filter (\<lambda>e. e \<notin> set t) a) = length a - length t"
proof -
  have "set (filter (\<lambda>e. e \<notin> set t) a) = set a - set t" by auto
  moreover have "distinct (filter (\<lambda>e. e \<notin> set t) a)" using assms(1) by simp
  ultimately have "length (filter (\<lambda>e. e \<notin> set t) a) = card (set a - set t)"
    by (metis distinct_card)
  also have "\<dots> = card (set a) - card (set t)"
    using assms(3) by (simp add: card_Diff_subset)
  finally show ?thesis
    using assms(1,2) by (simp add: distinct_card)
qed

lemma take_sorted_le_rest:
  assumes "x \<in> set (take n (sort_key f xs))" and "y \<in> set xs" and "y \<notin> set (take n (sort_key f xs))"
  shows "f x \<le> f y"
proof -
  let ?s = "sort_key f xs"
  have "y \<in> set (take n ?s @ drop n ?s)" using assms(2) by simp
  with assms(3) have y: "y \<in> set (drop n ?s)" by (simp del: append_take_drop_id)
  have "sorted (map f (take n ?s @ drop n ?s))" by simp
  then have "\<forall>a \<in> set (take n ?s). \<forall>b \<in> set (drop n ?s). f a \<le> f b"
    unfolding map_append sorted_append by auto
  with assms(1) y show ?thesis by blast
qed


lemma sweepProcessed_cases:
  fixes interval now :: int and maxEntries :: nat
  assumes "distinct (map fst c)"
  defines "a \<equiv> filter (\<lambda>e. \<not> snd e < now - interval) c"
  defines "t \<equiv> take (length a - maxEntries) (sort_key snd a)"
  shows "sweepProcessed interval maxEntries now c
           = (if length a > maxEntries then filter (\<lambda>e. e \<notin> set t) a else a)"
proof -
  have swept: "fold (\<lambda>(id, timestamp) m. if timestamp < now - interval then map_delete m id else m) c c = a"
    unfolding a_def using sweep_ttl_phase [OF assms(1), of "\<lambda>ts. ts < now - interval"] .
  have da: "distinct (map fst a)"
    unfolding a_def using assms(1) by (rule distinct_map_filter)
  have "set t \<subseteq> set a"
    unfolding t_def using set_take_subset [of "length a - maxEntries" "sort_key snd a"] by simp
  from evict_phase [OF da this] swept show ?thesis
    by (simp add: sweepProcessed_def Let_def t_def)
qed

lemma sweepProcessed_spec:
  fixes interval now :: int and maxEntries :: nat
  assumes "distinct (map fst c)"
  defines "c' \<equiv> sweepProcessed interval maxEntries now c"
  shows "\<forall>e \<in> set c'. now - snd e \<le> interval"
    and "length c' = min maxEntries (length (filter (\<lambda>e. now - snd e \<le> interval) c))"
    and "\<forall>e \<in> set c. e \<notin> set c' \<longrightarrow> (\<forall>r \<in> set c'. snd e \<le> snd r)"
    and "c' = filter (\<lambda>e. e \<in> set c') c"
proof -
  define a where "a = filter (\<lambda>e. \<not> snd e < now - interval) c"
  define t where "t = take (length a - maxEntries) (sort_key snd a)"
  have c': "c' = (if length a > maxEntries then filter (\<lambda>e. e \<notin> set t) a else a)"
    unfolding c'_def a_def t_def using sweepProcessed_cases [OF assms(1)] by simp
  have a_eq: "a = filter (\<lambda>e. now - snd e \<le> interval) c"
    unfolding a_def by (intro filter_cong) auto
  have dc: "distinct c" using assms(1) by (rule distinct_map [THEN iffD1, THEN conjunct1])
  have da: "distinct a" unfolding a_def using dc by simp
  have ta: "set t \<subseteq> set a"
    unfolding t_def using set_take_subset [of "length a - maxEntries" "sort_key snd a"] by simp
  have dt: "distinct t" unfolding t_def using da by simp
  have lt: "length t = length a - maxEntries" unfolding t_def by simp
  have sub: "set c' \<subseteq> set a" unfolding c' by auto
  show "\<forall>e \<in> set c'. now - snd e \<le> interval"
    using sub unfolding a_eq by auto
  show "length c' = min maxEntries (length (filter (\<lambda>e. now - snd e \<le> interval) c))"
    unfolding a_eq [symmetric] c' using length_filter_remove [OF da dt ta] lt by auto
  show "\<forall>e \<in> set c. e \<notin> set c' \<longrightarrow> (\<forall>r \<in> set c'. snd e \<le> snd r)"
  proof (intro ballI impI)
    fix e r assume e: "e \<in> set c" "e \<notin> set c'" and r: "r \<in> set c'"
    from r sub have ra: "r \<in> set a" by blast
    show "snd e \<le> snd r"
    proof (cases "e \<in> set a")
      case False
      with e(1) have "snd e < now - interval" unfolding a_def by simp
      moreover from ra have "\<not> snd r < now - interval" unfolding a_def by simp
      ultimately show ?thesis by simp
    next
      case True
      with e(2) have big: "length a > maxEntries" and et: "e \<in> set t"
        unfolding c' by (auto split: if_splits)
      from r big have "r \<notin> set t" unfolding c' by simp
      with et ra show ?thesis
        unfolding t_def by (intro take_sorted_le_rest [where xs = a and n = "length a - maxEntries"]) 
    qed
  qed
  show "c' = filter (\<lambda>e. e \<in> set c') c"
  proof -
    have "filter (\<lambda>e. e \<in> set c') c = filter (\<lambda>e. e \<in> set c') a"
      unfolding a_def filter_filter using sub unfolding a_def by (intro filter_cong) auto
    also have "\<dots> = c'"
      unfolding c' by (auto intro!: filter_cong filter_True [symmetric] simp: filter_id_conv)
    finally show ?thesis by simp
  qed
qed

lemma sweepProcessed_evicts_oldest_example:
  "sweepProcessed 10 2 100
     [(''a'', 95), (''b'', 89), (''c'', 90), (''d'', 92), (''e'', 99), (''f'', 92)]
   = [(''a'', 95), (''e'', 99)]"
  by (simp add: sweepProcessed_def map_delete_def)

text \<open>
  C4 as stated fails at the boundary.  An entry marked exactly one hour before the sweep
  has age equal to the TTL; the sweep deletes only timestamps strictly below
  \<open>now - CLEANUP_INTERVAL_MS\<close>, so the entry is still present afterwards.
\<close>

theorem cleanupProcessedRequests_counterexample:
  "cleanupProcessedRequests 3600000 [(''req-1'', 0)] = [(''req-1'', 0)]
   \<and> cleanupProcessedLiquidations 3600000 [(''liq-1'', 0)] = [(''liq-1'', 0)]
   \<and> 3600000 - 0 \<ge> CLEANUP_INTERVAL_MS"
  by (simp add: cleanupProcessedRequests_def cleanupProcessedLiquidations_def sweepProcessed_def
      CLEANUP_INTERVAL_MS_def MAX_PROCESSED_ENTRIES_def map_delete_def)

text \<open>
  C4, amended.  For every cache (a map, so its keys are distinct) and every current time,
  after \<^verbatim>\<open>cleanupProcessedRequests\<close> or \<^verbatim>\<open>cleanupProcessedLiquidations\<close> has run, no entry
  older than the TTL of one hour remains (an entry of age exactly one hour is kept), the
  cache holds at most 1000 entries, namely as many of the unexpired entries as fit, every
  entry that was removed is at most as recent as every entry that was kept, and the kept
  entries are unchanged and in their original order.
\<close>

theorem cleanupProcessed_sweep:
  assumes "distinct (map fst c)"
  shows "(\<forall>e \<in> set (cleanupProcessedRequests now c). now - snd e \<le> CLEANUP_INTERVAL_MS)
     \<and> length (cleanupProcessedRequests now c) \<le> MAX_PROCESSED_ENTRIES
     \<and> length (cleanupProcessedRequests now c)
           = min MAX_PROCESSED_ENTRIES (length (filter (\<lambda>e. now - snd e \<le> CLEANUP_INTERVAL_MS) c))
     \<and> (\<forall>e \<in> set c. e \<notin> set (cleanupProcessedRequests now c) \<longrightarrow>
            (\<forall>r \<in> set (cleanupProcessedRequests now c). snd e \<le> snd r))
     \<and> cleanupProcessedRequests now c = filter (\<lambda>e. e \<in> set (cleanupProcessedRequests now c)) c
     \<and> cleanupProcessedLiquidations now c = cleanupProcessedRequests now c"
proof -
  note spec = sweepProcessed_spec [OF assms, of CLEANUP_INTERVAL_MS MAX_PROCESSED_ENTRIES now,
      folded cleanupProcessedRequests_def]
  have "length (cleanupProcessedRequests now c) \<le> MAX_PROCESSED_ENTRIES"
    using spec(2) by simp
  moreover have "cleanupProcessedLiquidations now c = cleanupProcessedRequests now c"
    by (simp add: cleanupProcessedRequests_def cleanupProcessedLiquidations_def)
  ultimately show ?thesis
    using spec by blast
qed

theorem cleanupProcessed_sweep_witness:
  "distinct (map fst [(''a'', 0 :: int), (''b'', 3600000), (''c'', 5000000)])
   \<and> cleanupProcessedRequests 7200000 [(''a'', 0), (''b'', 3600000), (''c'', 5000000)]
       = [(''b'', 3600000), (''c'', 5000000)]
   \<and> length (cleanupProcessedRequests 7200000 [(''a'', 0), (''b'', 3600000), (''c'', 5000000)])
       \<le> MAX_PROCESSED_ENTRIES"
proof -
  have d: "distinct (map fst [(''a'', 0 :: int), (''b'', 3600000), (''c'', 5000000)])"
    by simp
  have v: "cleanupProcessedRequests 7200000 [(''a'', 0), (''b'', 3600000), (''c'', 5000000)]
       = [(''b'', 3600000), (''c'', 5000000)]"
    by (simp add: cleanupProcessedRequests_def sweepProcessed_def CLEANUP_INTERVAL_MS_def
        MAX_PROCESSED_ENTRIES_def map_delete_def)
  from cleanupProcessed_sweep [OF d, of 7200000] d v show ?thesis
    by blast
qed

section \<open>Properties of the transform call\<close>

text \<open>
  The catch clause of \<^verbatim>\<open>callTransform\<close> on its own: a rejection that is an \<^verbatim>\<open>Error\<close> whose
  message contains \<^verbatim>\<open>Already executed\<close> becomes the empty result, every other rejection
  is re-raised unchanged, and a successful response is returned as it is.
\<close>

lemma callTransform_catch_clause:
  "callTransform post rid w =
     (case post rid w of
        (Inr response, w') \<Rightarrow> (Inr response, w')
      | (Inl error, w') \<Rightarrow>
          (if (\<exists>m c st. error = ErrorInstance m c st \<and> sublist ''Already executed'' m)
           then (Inr \<lparr>txHash = None\<rparr>, w')
           else (Inl error, w')))"
proof -
  have "alreadyExecuted error
      \<longleftrightarrow> (\<exists>m c st. error = ErrorInstance m c st \<and> sublist ''Already executed'' m)" for error
    by (cases error) (simp_all add: str_includes_sublist)
  then show ?thesis
    by (simp add: callTransform_def split: prod.splits sum.splits)
qed

lemma decimalDigit_in: "decimalDigit d \<in> set ''0123456789''"
  unfolding decimalDigit_def by (rule nth_mem) simp

lemma set_decimal: "set (decimal n) \<subseteq> set ''0123456789''"
proof (induction n rule: decimal.induct)
  case (1 n)
  show ?case
  proof (cases "n < 10")
    case True
    then show ?thesis using decimalDigit_in [of n] by (subst decimal.simps) simp
  next
    case False
    with "1" decimalDigit_in [of n] show ?thesis by (subst decimal.simps) simp
  qed
qed

lemma axiosError_not_alreadyExecuted: "\<not> alreadyExecuted (axiosError status)"
proof
  assume "alreadyExecuted (axiosError status)"
  then have "sublist ''Already executed'' (''Request failed with status code '' @ decimal status)"
    by (simp add: axiosError_def str_includes_sublist)
  then have "set ''Already executed'' \<subseteq> set (''Request failed with status code '' @ decimal status)"
    by (rule set_mono_sublist)
  then have "CHR ''A'' \<in> set ''Request failed with status code '' \<union> set (decimal status)"
    by auto
  then show False
    using set_decimal [of status] by auto
qed

lemma callTransform_rethrows_http_failure:
  assumes "post rid w = (Inl (axiosError status), w')"
  shows "callTransform post rid w = (Inl (axiosError status), w')"
  using assms axiosError_not_alreadyExecuted [of status] by (simp add: callTransform_def)

lemma apiClientPost_http_failure:
  assumes "service rid w = (HttpFailure status body, w)"
  shows "apiClientPost service rid w = (Inl (axiosError status), w)"
proof -
  have fn: "axiosPost service rid w = (Inl (axiosError status), w)"
    using assms by (simp add: axiosPost_def)
  show ?thesis
  proof (cases "isRetryableApiError (axiosError status)")
    case True
    then have "case retryableErrors API_RETRY_DEFAULTS of
        Some f \<Rightarrow> f (axiosError status) \<and> f (axiosError status) | None \<Rightarrow> True"
      by (simp add: API_RETRY_DEFAULTS_def)
    from withRetry_three_attempts
      [where options = API_RETRY_DEFAULTS and ?e1.0 = "axiosError status"
         and ?e2.0 = "axiosError status" and ?e3.0 = "axiosError status"
         and fn = "axiosPost service rid" and s = w and ?s1.0 = w and ?s2.0 = w and ?s3.0 = w,
       OF this _ fn fn fn]
    show ?thesis
      by (simp add: apiClientPost_def API_RETRY_DEFAULTS_def)
  next
    case False
    from withRetry_not_retryable
      [where options = API_RETRY_DEFAULTS and f = isRetryableApiError and e = "axiosError status"
         and fn = "axiosPost service rid" and s = w and s' = w, OF _ False _ fn]
    show ?thesis
      by (simp add: apiClientPost_def API_RETRY_DEFAULTS_def)
  qed
qed

lemma callTransform_fails_on_http_failure:
  assumes "service rid w = (HttpFailure status body, w)"
  shows "callTransform (apiClientPost service) rid w = (Inl (axiosError status), w)"
  using apiClientPost_http_failure
      [where service = service and rid = rid and w = w and status = status and body = body, OF assms]
  by (rule callTransform_rethrows_http_failure)

lemma decimal_400: "decimal 400 = ''400''"
  by (simp add: decimal.simps decimalDigit_def)

text \<open>
  C9 does not hold of the code.  The claim: a finalize call for an id that is already
  finalized returns success (an empty result) instead of failing.  The service rejects
  such a call with an error status and the text \<^verbatim>\<open>Already executed\<close> in the response
  body.  \<^verbatim>\<open>callTransform\<close> looks for the text in \<^verbatim>\<open>error.message\<close>, which for an error
  status is always \<^verbatim>\<open>Request failed with status code N\<close>, so the check never matches
  and the rejection is re-raised (lemma \<open>callTransform_fails_on_http_failure\<close>, for every
  status and body).  Below, the first finalize of \<^verbatim>\<open>req-3\<close> succeeds and the second one
  fails.
\<close>

theorem second_finalize_fails:
  "callTransform
       (apiClientPost (\<lambda>rid w. if rid \<in> set w then (HttpFailure 400 ''Already executed'', w)
                               else (HttpOk \<lparr>txHash = Some ''0xabc''\<rparr>, w @ [rid])))
       ''req-3'' []
     = (Inr \<lparr>txHash = Some ''0xabc''\<rparr>, [''req-3''])
   \<and> callTransform
       (apiClientPost (\<lambda>rid w. if rid \<in> set w then (HttpFailure 400 ''Already executed'', w)
                               else (HttpOk \<lparr>txHash = Some ''0xabc''\<rparr>, w @ [rid])))
       ''req-3'' [''req-3'']
     = (Inl (ErrorInstance ''Request failed with status code 400'' (Some ''ERR_BAD_REQUEST'')
               (Some 400)), [''req-3''])"
proof -
  let ?service = "\<lambda>rid w. if rid \<in> set w then (HttpFailure 400 ''Already executed'', w)
                               else (HttpOk \<lparr>txHash = Some ''0xabc''\<rparr>, w @ [rid])"
  have e: "axiosError 400 = ErrorInstance ''Request failed with status code 400''
      (Some ''ERR_BAD_REQUEST'') (Some 400)"
    by (simp add: axiosError_def decimal_400)
  have first: "apiClientPost ?service ''req-3'' [] = (Inr \<lparr>txHash = Some ''0xabc''\<rparr>, [''req-3''])"
    by (simp add: apiClientPost_def withRetry_def axiosPost_def API_RETRY_DEFAULTS_def)
  have rejected: "?service ''req-3'' [''req-3''] = (HttpFailure 400 ''Already executed'', [''req-3''])"
    by simp
  have a: "callTransform (apiClientPost ?service) ''req-3'' [] = (Inr \<lparr>txHash = Some ''0xabc''\<rparr>, [''req-3''])"
    using first by (simp add: callTransform_def)
  have b: "callTransform (apiClientPost ?service) ''req-3'' [''req-3''] = (Inl (axiosError 400), [''req-3''])"
    using callTransform_fails_on_http_failure
      [where service = ?service and rid = "''req-3''" and w = "[''req-3'']" and status = 400
         and body = "''Already executed''", OF rejected] .
  show ?thesis
    using a b unfolding e by (rule conjI)
qed

section \<open>Properties of the stream client\<close>





























lemma handleMessage_never_throws: "fst (handleMessage parse listener config dat w) = None"
  by (simp add: handleMessage_def split: prod.splits option.splits)

lemma handleMessage_dropped:
  assumes "parse dat = None \<or> (\<exists>message. parse dat = Some message
      \<and> getProp message ''type'' \<notin> {Inr (Some (JString ''rfq_request'')),
            Inr (Some (JString ''liquidation'')), Inr (Some (JString ''bid_accepted''))})"
  shows "\<exists>logs. snd (handleMessage parse listener config dat w) = w\<lparr>effects := effects w @ logs\<rparr>
           \<and> list_all isLogged logs"
proof (cases "parse dat")
  case None
  then have "snd (handleMessage parse listener config dat w)
      = w\<lparr>effects := effects w @ [Logged ''Failed to parse WebSocket message'']\<rparr>"
    by (simp add: handleMessage_def handleMessageTry_def effect_def)
  then show ?thesis by (intro exI [of _ "[Logged ''Failed to parse WebSocket message'']"]) simp
next
  case (Some message)
  with assms have ty: "getProp message ''type'' \<noteq> Inr (Some (JString ''rfq_request''))"
      "getProp message ''type'' \<noteq> Inr (Some (JString ''liquidation''))"
      "getProp message ''type'' \<noteq> Inr (Some (JString ''bid_accepted''))"
    by auto
  show ?thesis
  proof (cases "getProp message ''type''")
    case (Inl e)
    with Some have "snd (handleMessage parse listener config dat w)
        = w\<lparr>effects := effects w @ [Logged ''Failed to parse WebSocket message'']\<rparr>"
      by (simp add: handleMessage_def handleMessageTry_def effect_def)
    then show ?thesis by (intro exI [of _ "[Logged ''Failed to parse WebSocket message'']"]) simp
  next
    case (Inr t)
    show ?thesis
    proof (cases "t = Some (JString ''pong'')")
      case True
      with Some Inr have "snd (handleMessage parse listener config dat w)
          = w\<lparr>effects := effects w @ [Logged ''WebSocket message received'']\<rparr>"
        by (simp add: handleMessage_def handleMessageTry_def effect_def Let_def)
      then show ?thesis by (intro exI [of _ "[Logged ''WebSocket message received'']"]) simp
    next
      case False
      with Some Inr ty have "snd (handleMessage parse listener config dat w)
          = w\<lparr>effects := effects w @ [Logged ''WebSocket message received'', Logged ''Unknown message type'']\<rparr>"
        by (simp add: handleMessage_def handleMessageTry_def effect_def Let_def)
      then show ?thesis
        by (intro exI [of _ "[Logged ''WebSocket message received'', Logged ''Unknown message type'']"]) simp
    qed
  qed
qed

text \<open>
  C8.  \<^verbatim>\<open>handleMessage\<close> never throws to its caller, whatever the message and whatever
  the listeners do.  A message that cannot be parsed, or whose \<^verbatim>\<open>type\<close> is none of
  \<^verbatim>\<open>rfq_request\<close>, \<^verbatim>\<open>liquidation\<close> and \<^verbatim>\<open>bid_accepted\<close> (missing, not a string, unknown,
  or the heartbeat \<^verbatim>\<open>pong\<close>), is dropped: the client only writes log lines, no event is
  emitted, and the socket and every field of the client stay as they were.
\<close>

theorem handleMessage_drops_unrecognized:
  assumes "parse dat = None \<or> (\<exists>message. parse dat = Some message
      \<and> getProp message ''type'' \<notin> {Inr (Some (JString ''rfq_request'')),
            Inr (Some (JString ''liquidation'')), Inr (Some (JString ''bid_accepted''))})"
  shows "fst (handleMessage parse listener config dat w) = None
       \<and> (\<exists>logs. snd (handleMessage parse listener config dat w) = w\<lparr>effects := effects w @ logs\<rparr>
              \<and> list_all isLogged logs)
       \<and> filter isEmitted (effects (snd (handleMessage parse listener config dat w)))
           = filter isEmitted (effects w)
       \<and> sockets (snd (handleMessage parse listener config dat w)) = sockets w
       \<and> ws (snd (handleMessage parse listener config dat w)) = ws w"
proof -
  from handleMessage_dropped
    [where parse = parse and dat = dat and listener = listener and config = config and w = w, OF assms]
  obtain logs where
    l: "snd (handleMessage parse listener config dat w) = w\<lparr>effects := effects w @ logs\<rparr>"
      "list_all isLogged logs"
    by blast
  have "filter isEmitted logs = []"
    using l(2) by (induction logs) (auto elim: isLogged.elims)
  with l handleMessage_never_throws [of parse listener config dat w] show ?thesis
    by auto
qed







theorem handleMessage_drops_unrecognized_witness:
  "fst (handleMessage
          (\<lambda>d. if d = ''heartbeat'' then Some (JObject [(''type'', JString ''heartbeat'')]) else None)
          (\<lambda>e. Some (Primitive ''listener failed''))
          \<lparr>url = ''wss://stream.example/ws'', reconnectIntervalMs = 5000, wsSupportedChains = [98866],
           wsMarketMakerAddress = ''0xmaker''\<rparr>
          ''not json''
          \<lparr>ws = Some 0, isConnected = True, shouldReconnect = True, reconnectTimeout = None,
           sockets = [OPEN], timers = [], nextTimer = 0, effects = [Emitted ConnectedEvent]\<rparr>) = None
   \<and> filter isEmitted (effects (snd (handleMessage
          (\<lambda>d. if d = ''heartbeat'' then Some (JObject [(''type'', JString ''heartbeat'')]) else None)
          (\<lambda>e. Some (Primitive ''listener failed''))
          \<lparr>url = ''wss://stream.example/ws'', reconnectIntervalMs = 5000, wsSupportedChains = [98866],
           wsMarketMakerAddress = ''0xmaker''\<rparr>
          ''heartbeat''
          \<lparr>ws = Some 0, isConnected = True, shouldReconnect = True, reconnectTimeout = None,
           sockets = [OPEN], timers = [], nextTimer = 0, effects = [Emitted ConnectedEvent]\<rparr>)))
       = [Emitted ConnectedEvent]"
proof -
  let ?parse = "\<lambda>d. if d = ''heartbeat'' then Some (JObject [(''type'', JString ''heartbeat'')]) else None"
  let ?listener = "\<lambda>e :: ws_event. Some (Primitive ''listener failed'')"
  let ?config = "\<lparr>url = ''wss://stream.example/ws'', reconnectIntervalMs = 5000,
                  wsSupportedChains = [98866], wsMarketMakerAddress = ''0xmaker''\<rparr>"
  let ?w = "\<lparr>ws = Some 0, isConnected = True, shouldReconnect = True, reconnectTimeout = None,
             sockets = [OPEN], timers = [], nextTimer = 0, effects = [Emitted ConnectedEvent]\<rparr>"
  have malformed: "?parse ''not json'' = None \<or> (\<exists>message. ?parse ''not json'' = Some message
      \<and> getProp message ''type'' \<notin> {Inr (Some (JString ''rfq_request'')),
            Inr (Some (JString ''liquidation'')), Inr (Some (JString ''bid_accepted''))})"
    by simp
  have unknown: "?parse ''heartbeat'' = None \<or> (\<exists>message. ?parse ''heartbeat'' = Some message
      \<and> getProp message ''type'' \<notin> {Inr (Some (JString ''rfq_request'')),
            Inr (Some (JString ''liquidation'')), Inr (Some (JString ''bid_accepted''))})"
    by simp
  have a: "fst (handleMessage ?parse ?listener ?config ''not json'' ?w) = None"
    using handleMessage_drops_unrecognized
      [where parse = ?parse and dat = "''not json''" and listener = ?listener and config = ?config
         and w = ?w, OF malformed, THEN conjunct1] .
  have "filter isEmitted (effects (snd (handleMessage ?parse ?listener ?config ''heartbeat'' ?w)))
      = filter isEmitted (effects ?w)"
    using handleMessage_drops_unrecognized
      [where parse = ?parse and dat = "''heartbeat''" and listener = ?listener and config = ?config
         and w = ?w, OF unknown, THEN conjunct2, THEN conjunct2, THEN conjunct1] .
  then have b: "filter isEmitted (effects (snd (handleMessage ?parse ?listener ?config ''heartbeat'' ?w)))
      = [Emitted ConnectedEvent]"
    by simp
  show ?thesis
    by (rule conjI [OF a b])
qed

section \<open>Properties of the liquidation path\<close>

lemma ratBigNumber_zero: "bnIsZero ratBigNumber (bnNew ratBigNumber (Some ''0''))"
  by (simp add: ratBigNumber_def parseDecimal_def digitValue_def)

lemma decimal_examples: "decimal 0 = ''0''" "decimal 1006 = ''1006''" "decimal 120000 = ''120000''"
  by (simp_all add: decimal.simps decimalDigit_def)

lemma parse2000: "bnNew ratBigNumber (Some ''2000'') = Some 2000" "bnNew ratBigNumber (Some ''1500'') = Some 1500"
  by (simp_all add: ratBigNumber_def parseDecimal_def digitValue_def)


lemma printRat_examples:
  "printRat (Some 120000) = ''120000''" "printRat (Some 1600000000) = ''1600000000''"
  "printRat (Some 400) = ''400''"
  by (simp_all add: printRat_def decimal.simps decimalDigit_def)

lemma amounts_example:
  "calculateLiquidationAmounts ratBigNumber
     \<lparr>liquidationId = ''liq-7'', collateralAsset = ''0xc011'',
      borrowedAmount = ''1500'', collateralAmountThatCanBeSeized = Some ''2000'', healthFactor = 9 / 10,
      liqChainId = 98866, exchangeProxy = ''0xproxy'', baseFeedPrice = 1, borrowedAssetId = ''0xdebt'',
      borrowedAssetDecimals = Some 2, collateralAssetDecimals = None\<rparr>
   = \<lparr>debtToRepay = ''120000'', collateralToSeize = ''1600000000'', profit = ''400'',
      collateralDecimals = 6, decimals = 2\<rparr>"
proof -
  have ops: "bnMultipliedBy ratBigNumber (Some a) (Some b) = Some (a * b)"
    "bnMinus ratBigNumber (Some a) (Some b) = Some (a - b)"
    "bnPow ratBigNumber (Some a) n = Some (a ^ n)"
    "bnIntegerValue ratBigNumber (Some a) = Some (of_int (round a))"
    "bnOfNumber ratBigNumber a = Some a"
    "bnToString ratBigNumber = printRat"
    "bnIsZero ratBigNumber x = (x = Some 0)" for a b n x
    by (simp_all add: ratBigNumber_def)
  show ?thesis
    by (simp add: calculateLiquidationAmounts_def Let_def parse2000 ops MAX_LIQUIDATION_RATIO_def
        printRat_examples)
qed


lemma ratBigNumber_ops:
  "bnMultipliedBy ratBigNumber (Some a) (Some b) = Some (a * b)"
  "bnMinus ratBigNumber (Some a) (Some b) = Some (a - b)"
  "bnPow ratBigNumber (Some a) n = Some (a ^ n)"
  "bnIntegerValue ratBigNumber (Some a) = Some (of_int (round a))"
  "bnOfNumber ratBigNumber a = Some a"
  "bnToString ratBigNumber = printRat"
  "bnToFixed0 ratBigNumber = printRat"
  "bnIsZero ratBigNumber x = (x = Some 0)"
  "bnNew ratBigNumber (Some s) = map_option of_nat (parseDecimal s)"
  by (simp_all add: ratBigNumber_def)

lemma processSingleLiquidation_example:
  "processSingleLiquidation ratBigNumber
     \<lparr>calculateExpiry = (\<lambda>m. 1700000000 + 60 * int m), generateSalt = ''42'',
      scaleDown = (\<lambda>s d. 1200), approveOutcome = None, signOutcome = Inr ''0xsig'',
      triggerOutcome = Inr (Some ''0xhash'')\<rparr>
     \<lparr>liquidationId = ''liq-7'', collateralAsset = ''0xc011'',
      borrowedAmount = ''1500'', collateralAmountThatCanBeSeized = Some ''2000'', healthFactor = 9 / 10,
      liqChainId = 98866, exchangeProxy = ''0xproxy'', baseFeedPrice = 1, borrowedAssetId = ''0xdebt'',
      borrowedAssetDecimals = Some 2, collateralAssetDecimals = None\<rparr>
     \<lparr>marketMakerAddress = ''0xmaker'', acceptedTokens = [''*''], priceSpread = 98 / 100,
      liquidationSpread = 95 / 100, minBidAmountWei = ''1000'', supportedChains = [98866]\<rparr>
   = [ApproveToken ''0xproxy'' ''1535200000'' ''0xdebt'',
      SignOrder \<lparr>ofChainId = 98866, ofVerifyingContract = ''0xproxy'', ofMaker = ''0xmaker'',
         ofTaker = zeroAddress, ofMakerToken = ''0xdebt'', ofTakerToken = ''0xc011'',
         ofMakerAmount = ''1535200000'', ofTakerAmount = ''1616000000'', ofExpiry = 1700001200,
         ofSalt = ''42'', ofPool = None, ofSender = None, ofFeeRecipient = None,
         ofTakerTokenFeeAmount = None\<rparr>,
      TriggerLiquidation ''liq-7'' ''0xmaker'' ''0xsig'' 1200,
      NotifyLiquidationTriggered ''liq-7'' (Some ''0xhash'') ''400'']"
proof -
  have p: "parseDecimal ''1600000000'' = Some 1600000000" "parseDecimal ''1520000000'' = Some 1520000000"
    by (simp_all add: parseDecimal_def digitValue_def)
  have q: "printRat (Some 1520000000) = ''1520000000''" "printRat (Some 1535200000) = ''1535200000''"
    "printRat (Some 1616000000) = ''1616000000''"
    by (simp_all add: printRat_def decimal.simps decimalDigit_def)
  show ?thesis
    unfolding processSingleLiquidation_def amounts_example
    by (simp add: shouldLiquidate_def calculateLiquidationQuote_def Let_def ratBigNumber_ops p q)
qed

text \<open>
  C10.  For every liquidation whose \<^verbatim>\<open>collateralAmountThatCanBeSeized\<close> is missing, empty
  or a \<^verbatim>\<open>BigNumber\<close> zero, \<^verbatim>\<open>calculateLiquidationAmounts\<close> returns \<^verbatim>\<open>'0'\<close> for
  \<^verbatim>\<open>debtToRepay\<close> and for \<^verbatim>\<open>collateralToSeize\<close>, \<^verbatim>\<open>shouldLiquidate\<close> is then false under
  every configuration, and \<^verbatim>\<open>processSingleLiquidation\<close> returns without a single outbound
  call: no approval, no signature, no trigger request, no notification.
\<close>

theorem zero_collateral_never_liquidated:
  assumes "falsy (collateralAmountThatCanBeSeized liq)
      \<or> bnIsZero bn (bnNew bn (collateralAmountThatCanBeSeized liq))"
  shows "debtToRepay (calculateLiquidationAmounts bn liq) = ''0''
     \<and> collateralToSeize (calculateLiquidationAmounts bn liq) = ''0''
     \<and> \<not> shouldLiquidate liq (calculateLiquidationAmounts bn liq) cfg
     \<and> processSingleLiquidation bn env liq cfg = []"
proof -
  from assms have a: "calculateLiquidationAmounts bn liq =
      \<lparr>debtToRepay = ''0'', collateralToSeize = ''0'', profit = ''0'', collateralDecimals = 6, decimals = 6\<rparr>"
    by (simp add: calculateLiquidationAmounts_def Let_def)
  then have b: "\<not> shouldLiquidate liq (calculateLiquidationAmounts bn liq) cfg"
    by (simp add: shouldLiquidate_def)
  then have "processSingleLiquidation bn env liq cfg = []"
    by (simp add: processSingleLiquidation_def Let_def)
  with a b show ?thesis by simp
qed

theorem zero_collateral_never_liquidated_witness:
  "processSingleLiquidation ratBigNumber
     \<lparr>calculateExpiry = (\<lambda>m. 1700000000 + 60 * int m), generateSalt = ''42'',
      scaleDown = (\<lambda>s d. 1200), approveOutcome = None, signOutcome = Inr ''0xsig'',
      triggerOutcome = Inr (Some ''0xhash'')\<rparr>
     \<lparr>liquidationId = ''liq-8'', collateralAsset = ''0xc011'',
      borrowedAmount = ''1500'', collateralAmountThatCanBeSeized = Some ''0'', healthFactor = 9 / 10,
      liqChainId = 98866, exchangeProxy = ''0xproxy'', baseFeedPrice = 1, borrowedAssetId = ''0xdebt'',
      borrowedAssetDecimals = Some 2, collateralAssetDecimals = None\<rparr>
     \<lparr>marketMakerAddress = ''0xmaker'', acceptedTokens = [''*''], priceSpread = 98 / 100,
      liquidationSpread = 95 / 100, minBidAmountWei = ''1000'', supportedChains = [98866]\<rparr>
   = []
   \<and> \<not> shouldLiquidate
     \<lparr>liquidationId = ''liq-9'', collateralAsset = ''0xc011'',
      borrowedAmount = ''1500'', collateralAmountThatCanBeSeized = None, healthFactor = 9 / 10,
      liqChainId = 98866, exchangeProxy = ''0xproxy'', baseFeedPrice = 1, borrowedAssetId = ''0xdebt'',
      borrowedAssetDecimals = Some 2, collateralAssetDecimals = None\<rparr>
     (calculateLiquidationAmounts ratBigNumber
        \<lparr>liquidationId = ''liq-9'', collateralAsset = ''0xc011'',
         borrowedAmount = ''1500'', collateralAmountThatCanBeSeized = None, healthFactor = 9 / 10,
         liqChainId = 98866, exchangeProxy = ''0xproxy'', baseFeedPrice = 1,
         borrowedAssetId = ''0xdebt'', borrowedAssetDecimals = Some 2,
         collateralAssetDecimals = None\<rparr>)
     \<lparr>marketMakerAddress = ''0xmaker'', acceptedTokens = [''*''], priceSpread = 98 / 100,
      liquidationSpread = 95 / 100, minBidAmountWei = ''1000'', supportedChains = [98866]\<rparr>"
proof -
  let ?env = "\<lparr>calculateExpiry = (\<lambda>m. 1700000000 + 60 * int m), generateSalt = ''42'',
      scaleDown = (\<lambda>s d. 1200), approveOutcome = None, signOutcome = Inr ''0xsig'',
      triggerOutcome = Inr (Some ''0xhash'')\<rparr>"
  let ?zero = "\<lparr>liquidationId = ''liq-8'', collateralAsset = ''0xc011'',
      borrowedAmount = ''1500'', collateralAmountThatCanBeSeized = Some ''0'', healthFactor = 9 / 10,
      liqChainId = 98866, exchangeProxy = ''0xproxy'', baseFeedPrice = 1, borrowedAssetId = ''0xdebt'',
      borrowedAssetDecimals = Some 2, collateralAssetDecimals = None\<rparr>"
  let ?missing = "\<lparr>liquidationId = ''liq-9'', collateralAsset = ''0xc011'',
      borrowedAmount = ''1500'', collateralAmountThatCanBeSeized = None, healthFactor = 9 / 10,
      liqChainId = 98866, exchangeProxy = ''0xproxy'', baseFeedPrice = 1, borrowedAssetId = ''0xdebt'',
      borrowedAssetDecimals = Some 2, collateralAssetDecimals = None\<rparr>"
  let ?cfg = "\<lparr>marketMakerAddress = ''0xmaker'', acceptedTokens = [''*''], priceSpread = 98 / 100,
      liquidationSpread = 95 / 100, minBidAmountWei = ''1000'', supportedChains = [98866]\<rparr>"
  have z: "falsy (collateralAmountThatCanBeSeized ?zero)
      \<or> bnIsZero ratBigNumber (bnNew ratBigNumber (collateralAmountThatCanBeSeized ?zero))"
    using ratBigNumber_zero by simp
  have m: "falsy (collateralAmountThatCanBeSeized ?missing)
      \<or> bnIsZero ratBigNumber (bnNew ratBigNumber (collateralAmountThatCanBeSeized ?missing))"
    by simp
  have a: "processSingleLiquidation ratBigNumber ?env ?zero ?cfg = []"
    using zero_collateral_never_liquidated
      [where liq = ?zero and bn = ratBigNumber and env = ?env and cfg = ?cfg, OF z,
       THEN conjunct2, THEN conjunct2, THEN conjunct2] .
  have b: "\<not> shouldLiquidate ?missing (calculateLiquidationAmounts ratBigNumber ?missing) ?cfg"
    using zero_collateral_never_liquidated
      [where liq = ?missing and bn = ratBigNumber and env = ?env and cfg = ?cfg, OF m,
       THEN conjunct2, THEN conjunct2, THEN conjunct1] .
  show ?thesis
    by (rule conjI [OF a b])
qed

section \<open>Properties of the bidding loop\<close>

lemma quote_example:
  "bnToString ratBigNumber (bnIntegerValue ratBigNumber
      (bnMultipliedBy ratBigNumber (bnNew ratBigNumber (Some ''5000'')) (bnOfNumber ratBigNumber (98 / 100))))
   = ''4900''"
  "\<not> bnIsLessThan ratBigNumber (bnNew ratBigNumber (Some ''5000'')) (bnNew ratBigNumber (Some ''1000''))"
  by (simp_all add: ratBigNumber_def parseDecimal_def digitValue_def printRat_def decimal.simps
      decimalDigit_def)

lemma marked_id_is_skipped:
  assumes "map_has (processedRequests st) (requestId request)"
  shows "bid_step bn cfg (PollObserves request) st = st"
    and "bid_step bn cfg (StreamObserves request) st = st"
  using assms by simp_all

text \<open>
  When the two deliveries of an id do not overlap, the second one finds the id marked
  and nothing is submitted twice: here the stream event arrives after the polling path
  has finished with the request.
\<close>

lemma single_submission_when_channels_do_not_overlap:
  "submissionsFor ''req-1''
     (bid_run ratBigNumber
        \<lparr>marketMakerAddress = ''0xmaker'', acceptedTokens = [''*''], priceSpread = 98 / 100,
         liquidationSpread = 95 / 100, minBidAmountWei = ''1000'', supportedChains = [98866]\<rparr>
        [PollObserves
           \<lparr>requestId = ''req-1'', redeemAsset = ''0xnest'', redeemAmount = ''5000'', chainId = 98866,
            expiry = 1700003600,
            metadataRfqOrder = Some
              \<lparr>orderChainId = 98866, verifyingContract = ''0xproxy'', taker = ''0xuser'',
               makerToken = ''0xusdc'', takerToken = ''0xnest'', takerAmount = ''5000'',
               pool = ''0x00'', sender = ''0x00'', feeRecipient = ''0x00'',
               takerTokenFeeAmount = ''0'', orderExpiry = 1700003600, salt = ''7''\<rparr>\<rparr>,
         Settles Poll ''req-1'' (Inr ''approved''),
         Settles Poll ''req-1'' (Inr ''0xsig-a''),
         Settles Poll ''req-1'' (Inr ''bid-1''),
         StreamObserves
           \<lparr>requestId = ''req-1'', redeemAsset = ''0xnest'', redeemAmount = ''5000'', chainId = 98866,
            expiry = 1700003600,
            metadataRfqOrder = Some
              \<lparr>orderChainId = 98866, verifyingContract = ''0xproxy'', taker = ''0xuser'',
               makerToken = ''0xusdc'', takerToken = ''0xnest'', takerAmount = ''5000'',
               pool = ''0x00'', sender = ''0x00'', feeRecipient = ''0x00'',
               takerTokenFeeAmount = ''0'', orderExpiry = 1700003600, salt = ''7''\<rparr>\<rparr>]
        (startOfBidding 1700000000000))
   = 1"
  by (simp add: submissionsFor_def startOfBidding_def beginProcessSingleRequest_def
      shouldBidOnRequest_def calculateQuote_def quote_example settle_def call_def markProcessed_def
      pollSuspended_def map_has_def orderToSign_def Let_def)

text \<open>
  C1 does not hold of the code.  The claim: an id delivered through both the polling
  channel and the stream channel within the TTL window leads to exactly one submission
  attempt, and the id is claimed before any processing work begins.  In the code both
  paths test \<^verbatim>\<open>processedRequests.has(id)\<close> first but call \<^verbatim>\<open>processedRequests.set\<close> only
  after \<^verbatim>\<open>processSingleRequest\<close> has resolved.  In the schedule below the polling loop
  starts on request \<^verbatim>\<open>req-1\<close> and is suspended in its first \<^verbatim>\<open>await\<close>; the stream event for
  the same id arrives, finds the id unmarked and starts a second call.  After the fourth
  step the polling path has already called \<^verbatim>\<open>submitBid\<close> while the id is still unmarked,
  and at the end \<^verbatim>\<open>submitBid\<close> has been called twice for \<^verbatim>\<open>req-1\<close>.
\<close>

theorem duplicate_submission_when_channels_overlap:
  "submissionsFor ''req-1''
     (bid_run ratBigNumber
        \<lparr>marketMakerAddress = ''0xmaker'', acceptedTokens = [''*''], priceSpread = 98 / 100,
         liquidationSpread = 95 / 100, minBidAmountWei = ''1000'', supportedChains = [98866]\<rparr>
        [PollObserves
           \<lparr>requestId = ''req-1'', redeemAsset = ''0xnest'', redeemAmount = ''5000'', chainId = 98866,
            expiry = 1700003600,
            metadataRfqOrder = Some
              \<lparr>orderChainId = 98866, verifyingContract = ''0xproxy'', taker = ''0xuser'',
               makerToken = ''0xusdc'', takerToken = ''0xnest'', takerAmount = ''5000'',
               pool = ''0x00'', sender = ''0x00'', feeRecipient = ''0x00'',
               takerTokenFeeAmount = ''0'', orderExpiry = 1700003600, salt = ''7''\<rparr>\<rparr>,
         StreamObserves
           \<lparr>requestId = ''req-1'', redeemAsset = ''0xnest'', redeemAmount = ''5000'', chainId = 98866,
            expiry = 1700003600,
            metadataRfqOrder = Some
              \<lparr>orderChainId = 98866, verifyingContract = ''0xproxy'', taker = ''0xuser'',
               makerToken = ''0xusdc'', takerToken = ''0xnest'', takerAmount = ''5000'',
               pool = ''0x00'', sender = ''0x00'', feeRecipient = ''0x00'',
               takerTokenFeeAmount = ''0'', orderExpiry = 1700003600, salt = ''7''\<rparr>\<rparr>,
         Settles Poll ''req-1'' (Inr ''approved''),
         Settles Poll ''req-1'' (Inr ''0xsig-a''),
         Settles Stream ''req-1'' (Inr ''approved''),
         Settles Stream ''req-1'' (Inr ''0xsig-b''),
         Settles Poll ''req-1'' (Inr ''bid-1''),
         Settles Stream ''req-1'' (Inr ''bid-2'')]
        (startOfBidding 1700000000000))
   = 2
   \<and> submissionsFor ''req-1''
     (bid_run ratBigNumber
        \<lparr>marketMakerAddress = ''0xmaker'', acceptedTokens = [''*''], priceSpread = 98 / 100,
         liquidationSpread = 95 / 100, minBidAmountWei = ''1000'', supportedChains = [98866]\<rparr>
        [PollObserves
           \<lparr>requestId = ''req-1'', redeemAsset = ''0xnest'', redeemAmount = ''5000'', chainId = 98866,
            expiry = 1700003600,
            metadataRfqOrder = Some
              \<lparr>orderChainId = 98866, verifyingContract = ''0xproxy'', taker = ''0xuser'',
               makerToken = ''0xusdc'', takerToken = ''0xnest'', takerAmount = ''5000'',
               pool = ''0x00'', sender = ''0x00'', feeRecipient = ''0x00'',
               takerTokenFeeAmount = ''0'', orderExpiry = 1700003600, salt = ''7''\<rparr>\<rparr>,
         StreamObserves
           \<lparr>requestId = ''req-1'', redeemAsset = ''0xnest'', redeemAmount = ''5000'', chainId = 98866,
            expiry = 1700003600,
            metadataRfqOrder = Some
              \<lparr>orderChainId = 98866, verifyingContract = ''0xproxy'', taker = ''0xuser'',
               makerToken = ''0xusdc'', takerToken = ''0xnest'', takerAmount = ''5000'',
               pool = ''0x00'', sender = ''0x00'', feeRecipient = ''0x00'',
               takerTokenFeeAmount = ''0'', orderExpiry = 1700003600, salt = ''7''\<rparr>\<rparr>,
         Settles Poll ''req-1'' (Inr ''approved''),
         Settles Poll ''req-1'' (Inr ''0xsig-a'')]
        (startOfBidding 1700000000000))
   = 1
   \<and> \<not> map_has (processedRequests
     (bid_run ratBigNumber
        \<lparr>marketMakerAddress = ''0xmaker'', acceptedTokens = [''*''], priceSpread = 98 / 100,
         liquidationSpread = 95 / 100, minBidAmountWei = ''1000'', supportedChains = [98866]\<rparr>
        [PollObserves
           \<lparr>requestId = ''req-1'', redeemAsset = ''0xnest'', redeemAmount = ''5000'', chainId = 98866,
            expiry = 1700003600,
            metadataRfqOrder = Some
              \<lparr>orderChainId = 98866, verifyingContract = ''0xproxy'', taker = ''0xuser'',
               makerToken = ''0xusdc'', takerToken = ''0xnest'', takerAmount = ''5000'',
               pool = ''0x00'', sender = ''0x00'', feeRecipient = ''0x00'',
               takerTokenFeeAmount = ''0'', orderExpiry = 1700003600, salt = ''7''\<rparr>\<rparr>,
         StreamObserves
           \<lparr>requestId = ''req-1'', redeemAsset = ''0xnest'', redeemAmount = ''5000'', chainId = 98866,
            expiry = 1700003600,
            metadataRfqOrder = Some
              \<lparr>orderChainId = 98866, verifyingContract = ''0xproxy'', taker = ''0xuser'',
               makerToken = ''0xusdc'', takerToken = ''0xnest'', takerAmount = ''5000'',
               pool = ''0x00'', sender = ''0x00'', feeRecipient = ''0x00'',
               takerTokenFeeAmount = ''0'', orderExpiry = 1700003600, salt = ''7''\<rparr>\<rparr>,
         Settles Poll ''req-1'' (Inr ''approved''),
         Settles Poll ''req-1'' (Inr ''0xsig-a'')]
        (startOfBidding 1700000000000))) ''req-1''"
  by (simp add: submissionsFor_def startOfBidding_def beginProcessSingleRequest_def
      shouldBidOnRequest_def calculateQuote_def quote_example settle_def call_def markProcessed_def
      pollSuspended_def map_has_def orderToSign_def Let_def)

end
